theory Spec2Isabelle
  imports Complex_Main "HOL-Library.Multiset"
begin

section \<open>Python exceptions\<close>

text \<open>
  The exceptions that the modelled code can raise, either itself or through the builtins
  and numpy routines it calls. A computation that may raise returns \<open>error + 'a\<close>,
  with \<open>Inl\<close> for the exception.
\<close>

datatype error =
    StopIteration
  | IndexError
  | ValueError
  | TypeError
  | AttributeError
  | LinAlgError

definition bind_e :: "error + 'a \<Rightarrow> ('a \<Rightarrow> error + 'b) \<Rightarrow> error + 'b" where
  "bind_e m f = (case m of Inl e \<Rightarrow> Inl e | Inr v \<Rightarrow> f v)"

section \<open>Python strings\<close>

text \<open>
  Text is ASCII; a \<open>string\<close> is the list of its characters. \<open>isspace\<close> is
  \<^verbatim>\<open>str.isspace\<close> on one character: tab, line feed, vertical tab, form feed, carriage
  return, the four separators \<^verbatim>\<open>\x1c\<close> to \<^verbatim>\<open>\x1f\<close>, and the space.
\<close>

definition isspace :: "char \<Rightarrow> bool" where
  "isspace c = (c \<in> set [CHR 0x09, CHR 0x0A, CHR 0x0B, CHR 0x0C, CHR 0x0D,
                          CHR 0x1C, CHR 0x1D, CHR 0x1E, CHR 0x1F, CHR 0x20])"

text \<open>\<^verbatim>\<open>s.split()\<close>: the maximal runs of non-whitespace characters, in order.\<close>

fun split_from :: "string \<Rightarrow> string \<Rightarrow> string list" where
  "split_from tok [] = (if tok = [] then [] else [rev tok])"
| "split_from tok (c # cs) =
     (if isspace c then (if tok = [] then split_from [] cs else rev tok # split_from [] cs)
      else split_from (c # tok) cs)"

definition split :: "string \<Rightarrow> string list" where
  "split s = split_from [] s"

text \<open>\<^verbatim>\<open>s.split(sep)\<close> for a one-character separator: never empty, empty fields kept.\<close>

fun split_on :: "char \<Rightarrow> string \<Rightarrow> string list" where
  "split_on sep [] = [[]]"
| "split_on sep (c # cs) =
     (if c = sep then [] # split_on sep cs
      else (case split_on sep cs of
              [] \<Rightarrow> [[c]]
            | t # ts \<Rightarrow> (c # t) # ts))"

definition rstrip :: "string \<Rightarrow> string" where
  "rstrip s = rev (dropWhile isspace (rev s))"

definition strip :: "string \<Rightarrow> string" where
  "strip s = rstrip (dropWhile isspace s)"

text \<open>\<^verbatim>\<open>s.rstrip(chars)\<close>: every trailing character that occurs in \<open>chars\<close> is removed.\<close>

definition rstrip_chars :: "string \<Rightarrow> string \<Rightarrow> string" where
  "rstrip_chars chars s = rev (dropWhile (\<lambda>c. c \<in> set chars) (rev s))"

definition startswith :: "string \<Rightarrow> string \<Rightarrow> bool" where
  "startswith s p = (take (length p) s = p)"

text \<open>\<^verbatim>\<open>sub in s\<close>: \<open>sub\<close> occurs in \<open>s\<close> as a contiguous substring.\<close>

fun py_in :: "string \<Rightarrow> string \<Rightarrow> bool" where
  "py_in sub [] = (sub = [])"
| "py_in sub (c # cs) = (startswith (c # cs) sub \<or> py_in sub cs)"

text \<open>\<^verbatim>\<open>xs[i]\<close> for \<open>i \<ge> 0\<close> and \<^verbatim>\<open>xs[-1]\<close>, which raise \<^verbatim>\<open>IndexError\<close> out of range.\<close>

definition item :: "'a list \<Rightarrow> nat \<Rightarrow> error + 'a" where
  "item xs i = (if i < length xs then Inr (xs ! i) else Inl IndexError)"

definition last_item :: "'a list \<Rightarrow> error + 'a" where
  "last_item xs = (if xs = [] then Inl IndexError else Inr (last xs))"

section \<open>numpy arrays\<close>

text \<open>
  The arrays of the module have at most two dimensions. \<open>Array0 s\<close> is a scalar (a Python
  float or a 0-d array), \<open>Array1 v\<close> an array of shape \<open>(len v,)\<close>, and \<open>Array2 c rows\<close> an
  array of shape \<open>(len rows, c)\<close>; the number of columns is kept apart from the rows so
  that an array without rows has a shape too. Python floats are modelled as reals.
\<close>

datatype ndarray = Array0 real | Array1 "real list" | Array2 nat "real list list"

fun ndim :: "ndarray \<Rightarrow> nat" where
  "ndim (Array0 s) = 0"
| "ndim (Array1 v) = 1"
| "ndim (Array2 c rows) = 2"

text \<open>
  \<^verbatim>\<open>np.array(x)\<close> on a list of lists of floats. An empty list gives the array of shape
  \<open>(0,)\<close>. Rows of different lengths make no numeric matrix: numpy (from version 1.24)
  raises \<^verbatim>\<open>ValueError\<close>.
\<close>

fun np_array :: "real list list \<Rightarrow> error + ndarray" where
  "np_array [] = Inr (Array1 [])"
| "np_array (row # rows) =
     (if list_all (\<lambda>r. length r = length row) rows then Inr (Array2 (length row) (row # rows))
      else Inl ValueError)"

text \<open>
  Elementwise arithmetic with broadcasting. Both operands are read as two-dimensional
  (a scalar as \<open>1 \<times> 1\<close>, a one-dimensional array as one row); two extents are compatible
  when they are equal or one of them is 1, and an extent of 1 is repeated. The result
  has the larger number of dimensions of the two operands.
\<close>

fun as_2d :: "ndarray \<Rightarrow> nat \<times> nat \<times> real list list" where
  "as_2d (Array0 s) = (1, 1, [[s]])"
| "as_2d (Array1 v) = (1, length v, [v])"
| "as_2d (Array2 c rows) = (length rows, c, rows)"

definition broadcast_dim :: "nat \<Rightarrow> nat \<Rightarrow> nat option" where
  "broadcast_dim a b =
     (if a = b then Some a else if a = 1 then Some b else if b = 1 then Some a else None)"

definition entry :: "nat \<times> nat \<times> real list list \<Rightarrow> nat \<Rightarrow> nat \<Rightarrow> real" where
  "entry a i j =
     (case a of (r, c, rows) \<Rightarrow> rows ! (if r = 1 then 0 else i) ! (if c = 1 then 0 else j))"

definition elementwise :: "(real \<Rightarrow> real \<Rightarrow> real) \<Rightarrow> ndarray \<Rightarrow> ndarray \<Rightarrow> error + ndarray" where
  "elementwise f a b =
     (case (broadcast_dim (fst (as_2d a)) (fst (as_2d b)),
            broadcast_dim (fst (snd (as_2d a))) (fst (snd (as_2d b)))) of
        (Some r, Some c) \<Rightarrow>
          (let rows = map (\<lambda>i. map (\<lambda>j. f (entry (as_2d a) i j) (entry (as_2d b) i j)) [0..<c])
                          [0..<r];
               d = max (ndim a) (ndim b)
           in Inr (if d = 0 then Array0 (rows ! 0 ! 0)
                   else if d = 1 then Array1 (rows ! 0)
                   else Array2 c rows))
      | _ \<Rightarrow> Inl ValueError)"

definition np_add :: "ndarray \<Rightarrow> ndarray \<Rightarrow> error + ndarray" where
  "np_add = elementwise (+)"

definition np_sub :: "ndarray \<Rightarrow> ndarray \<Rightarrow> error + ndarray" where
  "np_sub = elementwise (-)"

definition np_mul :: "ndarray \<Rightarrow> ndarray \<Rightarrow> error + ndarray" where
  "np_mul = elementwise (*)"

definition np_div :: "ndarray \<Rightarrow> ndarray \<Rightarrow> error + ndarray" where
  "np_div = elementwise (/)"

text \<open>\<^verbatim>\<open>a ** 2\<close>, elementwise.\<close>

fun np_square :: "ndarray \<Rightarrow> ndarray" where
  "np_square (Array0 s) = Array0 (s ^ 2)"
| "np_square (Array1 v) = Array1 (map (\<lambda>s. s ^ 2) v)"
| "np_square (Array2 c rows) = Array2 c (map (map (\<lambda>s. s ^ 2)) rows)"

text \<open>\<^verbatim>\<open>a.T\<close>: the transpose of a two-dimensional array; other arrays are unchanged.\<close>

definition column :: "nat \<Rightarrow> real list list \<Rightarrow> real list" where
  "column j rows = map (\<lambda>row. row ! j) rows"

fun np_T :: "ndarray \<Rightarrow> ndarray" where
  "np_T (Array2 c rows) = Array2 (length rows) (map (\<lambda>j. column j rows) [0..<c])"
| "np_T a = a"

text \<open>
  \<^verbatim>\<open>np.matmul(a, b)\<close>: a one-dimensional operand is a row on the left and a column on
  the right, and the dimension added for it is removed from the result; scalars are
  refused, and so are operands whose inner extents differ.
\<close>

definition dot :: "real list \<Rightarrow> real list \<Rightarrow> real" where
  "dot u v = sum_list (map2 (*) u v)"

fun np_matmul :: "ndarray \<Rightarrow> ndarray \<Rightarrow> error + ndarray" where
  "np_matmul (Array1 u) (Array1 v) =
     (if length u = length v then Inr (Array0 (dot u v)) else Inl ValueError)"
| "np_matmul (Array1 u) (Array2 c rows) =
     (if length u = length rows then Inr (Array1 (map (\<lambda>j. dot u (column j rows)) [0..<c]))
      else Inl ValueError)"
| "np_matmul (Array2 c rows) (Array1 v) =
     (if c = length v then Inr (Array1 (map (\<lambda>row. dot row v) rows)) else Inl ValueError)"
| "np_matmul (Array2 c rows) (Array2 c' rows') =
     (if c = length rows'
      then Inr (Array2 c' (map (\<lambda>row. map (\<lambda>j. dot row (column j rows')) [0..<c']) rows))
      else Inl ValueError)"
| "np_matmul a b = Inl ValueError"

text \<open>\<^verbatim>\<open>np.dot(a, b)\<close>: the product by a scalar when an operand is one, else as \<^verbatim>\<open>matmul\<close>.\<close>

definition np_dot :: "ndarray \<Rightarrow> ndarray \<Rightarrow> error + ndarray" where
  "np_dot a b = (if ndim a = 0 \<or> ndim b = 0 then np_mul a b else np_matmul a b)"

fun flatten :: "ndarray \<Rightarrow> ndarray" where
  "flatten (Array0 s) = Array1 [s]"
| "flatten (Array1 v) = Array1 v"
| "flatten (Array2 c rows) = Array1 (concat rows)"

text \<open>\<^verbatim>\<open>len(a)\<close>, and the items that \<^verbatim>\<open>for ri in a\<close> yields; a scalar has neither.\<close>

fun np_len :: "ndarray \<Rightarrow> error + nat" where
  "np_len (Array0 s) = Inl TypeError"
| "np_len (Array1 v) = Inr (length v)"
| "np_len (Array2 c rows) = Inr (length rows)"

fun np_iter :: "ndarray \<Rightarrow> error + ndarray list" where
  "np_iter (Array0 s) = Inl TypeError"
| "np_iter (Array1 v) = Inr (map Array0 v)"
| "np_iter (Array2 c rows) = Inr (map Array1 rows)"

text \<open>\<^verbatim>\<open>np.eye(n)\<close> and \<^verbatim>\<open>np.ones((n, 1))\<close>; a negative \<open>n\<close> is refused.\<close>

definition np_eye :: "int \<Rightarrow> error + ndarray" where
  "np_eye n =
     (if n < 0 then Inl ValueError
      else Inr (Array2 (nat n) (map (\<lambda>i. map (\<lambda>j. if i = j then 1 else 0) [0..<nat n]) [0..<nat n])))"

definition np_ones_column :: "int \<Rightarrow> error + ndarray" where
  "np_ones_column n = (if n < 0 then Inl ValueError else Inr (Array2 1 (replicate (nat n) [1])))"

text \<open>\<^verbatim>\<open>y[:, np.newaxis]\<close> for a one-dimensional \<open>y\<close>: the column of its entries.\<close>

definition as_column :: "real list \<Rightarrow> ndarray" where
  "as_column v = Array2 1 (map (\<lambda>s. [s]) v)"

text \<open>
  \<^verbatim>\<open>a[i] = v\<close> for a one-dimensional float array \<open>a\<close>, as a list: \<open>v\<close> has to hold exactly
  one number, which is stored; the index has to be in range.
\<close>

fun only_item :: "ndarray \<Rightarrow> error + real" where
  "only_item (Array0 s) = Inr s"
| "only_item (Array1 v) = (case v of [s] \<Rightarrow> Inr s | _ \<Rightarrow> Inl ValueError)"
| "only_item (Array2 c rows) = (case rows of [[s]] \<Rightarrow> Inr s | _ \<Rightarrow> Inl ValueError)"

definition setitem :: "real list \<Rightarrow> nat \<Rightarrow> ndarray \<Rightarrow> error + real list" where
  "setitem a i v =
     bind_e (only_item v) (\<lambda>s. if i < length a then Inr (a[i := s]) else Inl IndexError)"

section \<open>The model file and its reader\<close>

text \<open>
  \<^verbatim>\<open>models/model.py\<close>. The collaborators of the class that are not code of
  \<^verbatim>\<open>model.py\<close> are parameters, collected in one record:
  \<^item> the builtins \<^verbatim>\<open>float\<close> and \<^verbatim>\<open>int\<close> applied to a string (\<open>None\<close> is their
    \<^verbatim>\<open>ValueError\<close>);
  \<^item> \<^verbatim>\<open>KernelInterpreter(composition, kernel_list).interpret()\<close>, whose module is not
    among the sources, and the methods \<^verbatim>\<open>R(x)\<close> and \<^verbatim>\<open>r(x_train, x_test)\<close> of the
    composite kernel that it returns, a value of an arbitrary type \<open>'k\<close>;
  \<^item> \<^verbatim>\<open>np.linalg.inv\<close>, and the content of the memory that \<^verbatim>\<open>np.empty(n)\<close> hands out
    (\<open>np_empty E n i\<close> is entry \<open>i\<close> of that array).
  The kernel objects \<^verbatim>\<open>RBF(lengthscale)\<close> and \<^verbatim>\<open>RBFCyclic(lengthscale)\<close> that the reader
  builds are kept as constructor terms.
\<close>

datatype kernel_object = RBF "real list" | RBFCyclic "real list"

text \<open>
  The mean functions. \<^verbatim>\<open>QuadraticMean(beta, xmin, ymin)\<close> is in the sources;
  \<^verbatim>\<open>ConstantMean(value)\<close> and \<^verbatim>\<open>ZeroMean()\<close> are imported by \<^verbatim>\<open>model.py\<close> from
  modules that are not.
\<close>

datatype mean = ZeroMean | ConstantMean real | QuadraticMean "real list" "real list" real

record 'k externals =
  py_float :: "string \<Rightarrow> real option"
  py_int :: "string \<Rightarrow> int option"
  interpreter :: "string \<Rightarrow> (string \<rightharpoonup> kernel_object) \<Rightarrow> error + 'k"
  kernel_R :: "'k \<Rightarrow> ndarray \<Rightarrow> error + ndarray"
  kernel_r :: "'k \<Rightarrow> ndarray \<Rightarrow> ndarray \<Rightarrow> error + ndarray"
  linalg_inv :: "ndarray \<Rightarrow> error + ndarray"
  np_empty :: "nat \<Rightarrow> nat \<Rightarrow> real"

text \<open>
  The attributes of a \<^verbatim>\<open>Model\<close> object: \<^verbatim>\<open>nugget\<close>, and \<^verbatim>\<open>_system\<close>, \<^verbatim>\<open>_atom\<close>,
  \<^verbatim>\<open>_type\<close>, \<^verbatim>\<open>_nfeats\<close>, \<^verbatim>\<open>_ntrain\<close>, \<^verbatim>\<open>_mean\<close>, \<^verbatim>\<open>_k\<close>, \<^verbatim>\<open>_x\<close>, \<^verbatim>\<open>_y\<close>, written
  \<open>m_system\<close> ... \<open>m_y\<close>. \<open>None\<close> is the placeholder \<^verbatim>\<open>FileContents\<close> of an attribute that
  the file has not set. \<open>m_k\<close> is what the property \<open>k\<close> returns: the composite kernel that
  \<^verbatim>\<open>_read_file\<close> assigns to \<^verbatim>\<open>self.k\<close>. \<open>m_x\<close> is the array
  \<^verbatim>\<open>np.array(x)\<close> of the rows read. \<open>m_y\<close> holds the entries of \<^verbatim>\<open>np.array(y)\<close>, which is
  built from a list of floats and so is one-dimensional and cannot fail.
\<close>

record 'k model =
  nugget :: real
  m_system :: "string option"
  m_atom :: "string option"
  m_type :: "string option"
  m_nfeats :: "int option"
  m_ntrain :: "int option"
  m_mean :: "mean option"
  m_k :: "'k option"
  m_x :: "ndarray option"
  m_y :: "real list option"

text \<open>\<^verbatim>\<open>Model.__init__\<close>: the nugget is \<^verbatim>\<open>1e-10\<close>, every other attribute is unset.\<close>

definition init :: "'k model" where
  "init = \<lparr> nugget = 1 / 10 ^ 10, m_system = None, m_atom = None, m_type = None,
            m_nfeats = None, m_ntrain = None, m_mean = None, m_k = None,
            m_x = None, m_y = None \<rparr>"

text \<open>
  The state of \<^verbatim>\<open>_read_file\<close> while it runs: the object \<open>self\<close> and the two local
  variables of the function.
\<close>

record 'k frame =
  self :: "'k model"
  kernel_composition :: string
  kernel_list :: "string \<rightharpoonup> kernel_object"

definition to_float :: "'k externals \<Rightarrow> string \<Rightarrow> error + real" where
  "to_float E s = (case py_float E s of None \<Rightarrow> Inl ValueError | Some v \<Rightarrow> Inr v)"

definition to_int :: "'k externals \<Rightarrow> string \<Rightarrow> error + int" where
  "to_int E s = (case py_int E s of None \<Rightarrow> Inl ValueError | Some v \<Rightarrow> Inr v)"

text \<open>\<^verbatim>\<open>[float(t) for t in tokens]\<close>: the first token that is no float raises.\<close>

fun floats :: "'k externals \<Rightarrow> string list \<Rightarrow> error + real list" where
  "floats E [] = Inr []"
| "floats E (t # ts) =
     bind_e (to_float E t) (\<lambda>v. bind_e (floats E ts) (\<lambda>vs. Inr (v # vs)))"

text \<open>
  The block of \<^verbatim>\<open>[training_data.x]\<close>, on the lines that follow the section line:
  \<^verbatim>\<open>
  line = next(f)
  x = []
  while line.strip() != "":
      x += [[float(num) for num in line.split()]]
      line = next(f)
  \<close>
  The result is the list \<open>x\<close> and the number of lines taken from the file, the blank line
  included. \<^verbatim>\<open>next(f)\<close> on an exhausted file raises \<^verbatim>\<open>StopIteration\<close>. The statement
  \<^verbatim>\<open>self._x = np.array(x)\<close> that follows the loop is in \<open>read_line\<close> below.
\<close>

fun read_x :: "'k externals \<Rightarrow> string list \<Rightarrow> error + real list list \<times> nat" where
  "read_x E [] = Inl StopIteration"
| "read_x E (line # rest) =
     (if strip line = [] then Inr ([], 1)
      else bind_e (floats E (split line)) (\<lambda>row.
           bind_e (read_x E rest) (\<lambda>(rows, n). Inr (row # rows, Suc n))))"

text \<open>The block of \<^verbatim>\<open>[training_data.y]\<close>: as above with \<^verbatim>\<open>y += [float(line)]\<close>.\<close>

fun read_y :: "'k externals \<Rightarrow> string list \<Rightarrow> error + real list \<times> nat" where
  "read_y E [] = Inl StopIteration"
| "read_y E (line # rest) =
     (if strip line = [] then Inr ([], 1)
      else bind_e (to_float E line) (\<lambda>v.
           bind_e (read_y E rest) (\<lambda>(vs, n). Inr (v # vs, Suc n))))"

text \<open>
  The body of a \<^verbatim>\<open>[kernel.<name>]\<close> section. \<open>rest\<close> are the lines after the section
  line; the result is the updated \<open>kernel_list\<close> and the number of lines taken.
  \<^verbatim>\<open>
  kernel_name = line.split(".")[-1].rstrip().rstrip("]")
  line = next(f)
  kernel_type = line.split()[-1].strip()
  if kernel_type == "rbf":
      _ = next(f)
      _ = next(f)
      line = next(f)
      lengthscale = np.array([float(hp) for hp in line.split()[1:]])
      kernel_list[kernel_name] = RBF(lengthscale)
  elif kernel_type in ["rbf-cyclic", "rbf-cylic"]:
      line = next(f)
      line = next(f)
      line = next(f)
      lengthscale = np.array([float(hp) for hp in line.split()[1:]])
      kernel_list[kernel_name] = RBFCyclic(lengthscale)
  \<close>
\<close>

definition kernel_name_of :: "string \<Rightarrow> string" where
  "kernel_name_of line = rstrip_chars '']'' (rstrip (last (split_on CHR ''.'' line)))"

definition read_kernel ::
  "'k externals \<Rightarrow> (string \<rightharpoonup> kernel_object) \<Rightarrow> string \<Rightarrow> string list
     \<Rightarrow> error + (string \<rightharpoonup> kernel_object) \<times> nat" where
  "read_kernel E kl line rest =
     (let kernel_name = kernel_name_of line in
      case rest of
        [] \<Rightarrow> Inl StopIteration
      | line1 # rest1 \<Rightarrow>
          bind_e (last_item (split line1)) (\<lambda>tok.
          let kernel_type = strip tok in
          if kernel_type = ''rbf'' then
            (case rest1 of
               _ # _ # line4 # _ \<Rightarrow>
                 bind_e (floats E (tl (split line4))) (\<lambda>lengthscale.
                 Inr (kl(kernel_name \<mapsto> RBF lengthscale), 4))
             | _ \<Rightarrow> Inl StopIteration)
          else if kernel_type \<in> set [''rbf-cyclic'', ''rbf-cylic''] then
            (case rest1 of
               _ # _ # line4 # _ \<Rightarrow>
                 bind_e (floats E (tl (split line4))) (\<lambda>lengthscale.
                 Inr (kl(kernel_name \<mapsto> RBFCyclic lengthscale), 4))
             | _ \<Rightarrow> Inl StopIteration)
          else Inr (kl, 1)))"

text \<open>
  The tests that the body of \<^verbatim>\<open>for line in f:\<close> makes on the line, in the order of the
  source. Every branch of the source ends with \<^verbatim>\<open>continue\<close>, so the first test that
  holds decides which branch runs.
  \<^verbatim>\<open>
  if line.startswith("#"): ...
  if "name" in line: ...
  if line.startswith("atom"): ...
  if "property" in line: ...
  if "nugget" in line: ...
  if "number_of_features" in line: ...
  if "number_of_training_points" in line: ...
  if "[mean]" in line: ...
  if "composition" in line: ...
  if "[kernel." in line: ...
  if "[training_data.x]" in line: ...
  if "[training_data.y]" in line: ...
  \<close>
\<close>

datatype branch =
    Comment | Name | Atom | Property | Nugget | NFeatures | NTrain | MeanSection
  | Composition | KernelSection | XSection | YSection | Other

definition branch_of :: "string \<Rightarrow> branch" where
  "branch_of line =
     (if startswith line ''#'' then Comment
      else if py_in ''name'' line then Name
      else if startswith line ''atom'' then Atom
      else if py_in ''property'' line then Property
      else if py_in ''nugget'' line then Nugget
      else if py_in ''number_of_features'' line then NFeatures
      else if py_in ''number_of_training_points'' line then NTrain
      else if py_in ''[mean]'' line then MeanSection
      else if py_in ''composition'' line then Composition
      else if py_in ''[kernel.'' line then KernelSection
      else if py_in ''[training_data.x]'' line then XSection
      else if py_in ''[training_data.y]'' line then YSection
      else Other)"

text \<open>
  One pass through the body of the loop. \<open>line\<close> is the line that the loop took from the
  file and \<open>rest\<close> the lines that the file still holds; the result is the new state and
  the number of lines that the body took from \<open>rest\<close> with \<^verbatim>\<open>next(f)\<close>. Each branch
  assigns to \<open>self\<close> or to \<open>kernel_list\<close> in its last statement, so a pass that raises
  leaves the state as it found it.
  \<^verbatim>\<open>
  self._system = line.split()[1]                      # "name"
  self._atom = line.split()[1]                        # "atom"
  self._type = line.split()[1]                        # "property"
  self.nugget = float(line.split()[-1])               # "nugget"
  self._nfeats = int(line.split()[1])                 # "number_of_features"
  self._ntrain = int(line.split()[1])                 # "number_of_training_points"
  _ = next(f); line = next(f)                         # "[mean]"
  self._mean = ConstantMean(float(line.split()[1]))
  kernel_composition = line.split()[-1]               # "composition"
  \<close>
\<close>

definition read_line ::
  "'k externals \<Rightarrow> 'k frame \<Rightarrow> string \<Rightarrow> string list \<Rightarrow> error + 'k frame \<times> nat" where
  "read_line E fr line rest =
     (case branch_of line of
        Comment \<Rightarrow> Inr (fr, 0)
      | Name \<Rightarrow>
          bind_e (item (split line) 1) (\<lambda>v.
          Inr (fr\<lparr>self := (self fr)\<lparr>m_system := Some v\<rparr>\<rparr>, 0))
      | Atom \<Rightarrow>
          bind_e (item (split line) 1) (\<lambda>v.
          Inr (fr\<lparr>self := (self fr)\<lparr>m_atom := Some v\<rparr>\<rparr>, 0))
      | Property \<Rightarrow>
          bind_e (item (split line) 1) (\<lambda>v.
          Inr (fr\<lparr>self := (self fr)\<lparr>m_type := Some v\<rparr>\<rparr>, 0))
      | Nugget \<Rightarrow>
          bind_e (last_item (split line)) (\<lambda>tok.
          bind_e (to_float E tok) (\<lambda>v.
          Inr (fr\<lparr>self := (self fr)\<lparr>nugget := v\<rparr>\<rparr>, 0)))
      | NFeatures \<Rightarrow>
          bind_e (item (split line) 1) (\<lambda>tok.
          bind_e (to_int E tok) (\<lambda>v.
          Inr (fr\<lparr>self := (self fr)\<lparr>m_nfeats := Some v\<rparr>\<rparr>, 0)))
      | NTrain \<Rightarrow>
          bind_e (item (split line) 1) (\<lambda>tok.
          bind_e (to_int E tok) (\<lambda>v.
          Inr (fr\<lparr>self := (self fr)\<lparr>m_ntrain := Some v\<rparr>\<rparr>, 0)))
      | MeanSection \<Rightarrow>
          (case rest of
             _ # line2 # _ \<Rightarrow>
               bind_e (item (split line2) 1) (\<lambda>tok.
               bind_e (to_float E tok) (\<lambda>v.
               Inr (fr\<lparr>self := (self fr)\<lparr>m_mean := Some (ConstantMean v)\<rparr>\<rparr>, 2)))
           | _ \<Rightarrow> Inl StopIteration)
      | Composition \<Rightarrow>
          bind_e (last_item (split line)) (\<lambda>tok.
          Inr (fr\<lparr>kernel_composition := tok\<rparr>, 0))
      | KernelSection \<Rightarrow>
          bind_e (read_kernel E (kernel_list fr) line rest) (\<lambda>(kl, n).
          Inr (fr\<lparr>kernel_list := kl\<rparr>, n))
      | XSection \<Rightarrow>
          bind_e (read_x E rest) (\<lambda>(x, n).
          bind_e (np_array x) (\<lambda>a.
          Inr (fr\<lparr>self := (self fr)\<lparr>m_x := Some a\<rparr>\<rparr>, n)))
      | YSection \<Rightarrow>
          bind_e (read_y E rest) (\<lambda>(y, n).
          Inr (fr\<lparr>self := (self fr)\<lparr>m_y := Some y\<rparr>\<rparr>, n))
      | Other \<Rightarrow> Inr (fr, 0))"

text \<open>
  The loop \<^verbatim>\<open>for line in f:\<close> over the lines of the file. The object is changed in
  place, so the outcome is the exception that ended the loop, if any, and the state at
  that moment.
\<close>

fun read_loop :: "'k externals \<Rightarrow> 'k frame \<Rightarrow> string list \<Rightarrow> error option \<times> 'k frame" where
  "read_loop E fr [] = (None, fr)"
| "read_loop E fr (line # rest) =
     (case read_line E fr line rest of
        Inl e \<Rightarrow> (Some e, fr)
      | Inr (fr', n) \<Rightarrow> read_loop E fr' (drop n rest))"

text \<open>
  \<^verbatim>\<open>Model._read_file\<close> on the object \<open>m\<close> and the lines of the file at \<^verbatim>\<open>self.path\<close>,
  each with its line end, as the file iterator yields them. It starts with
  \<^verbatim>\<open>kernel_composition = ""\<close> and \<^verbatim>\<open>kernel_list = {}\<close>, and after the loop
  \<^verbatim>\<open>self.k = KernelInterpreter(kernel_composition, kernel_list).interpret()\<close>.
\<close>

definition start :: "'k model \<Rightarrow> 'k frame" where
  "start m = \<lparr> self = m, kernel_composition = [], kernel_list = Map.empty \<rparr>"

definition read_file :: "'k externals \<Rightarrow> 'k model \<Rightarrow> string list \<Rightarrow> error option \<times> 'k model" where
  "read_file E m lines =
     (case read_loop E (start m) lines of
        (Some e, fr) \<Rightarrow> (Some e, self fr)
      | (None, fr) \<Rightarrow>
          (case interpreter E (kernel_composition fr) (kernel_list fr) of
             Inl e \<Rightarrow> (Some e, self fr)
           | Inr k \<Rightarrow> (None, (self fr)\<lparr>m_k := Some k\<rparr>)))"

text \<open>
  The state of the loop after \<open>k\<close> passes through its body, when none of them raised and
  the file held a line for each: the state and the lines that the file still holds.
\<close>

fun after_passes ::
  "nat \<Rightarrow> 'k externals \<Rightarrow> 'k frame \<Rightarrow> string list \<Rightarrow> ('k frame \<times> string list) option" where
  "after_passes 0 E fr lines = Some (fr, lines)"
| "after_passes (Suc k) E fr [] = None"
| "after_passes (Suc k) E fr (line # rest) =
     (case read_line E fr line rest of
        Inl e \<Rightarrow> None
      | Inr (fr', n) \<Rightarrow> after_passes k E fr' (drop n rest))"

section \<open>Mean functions\<close>

text \<open>
  \<^verbatim>\<open>models/mean/quadratic.py\<close>:
  \<^verbatim>\<open>
  def __init__(self, beta, xmin, ymin):
      self._beta = beta[:, np.newaxis]
      self._xmin = xmin
      self._ymin = ymin

  def value(self, x):
      a = x - self._xmin
      return (np.matmul(a * a, self._beta) + self._ymin).flatten()
  \<close>
  with one-dimensional arrays \<open>beta\<close> and \<open>xmin\<close>.

  Modelled from the spec: \<^verbatim>\<open>ZeroMean.value\<close> and \<^verbatim>\<open>ConstantMean.value\<close>, whose modules
  are not among the sources. The specification has "zero: always 0" and "constant: a
  single stored scalar, broadcast": both return a scalar, which the arithmetic of the
  caller broadcasts.
\<close>

fun mean_value :: "mean \<Rightarrow> ndarray \<Rightarrow> error + ndarray" where
  "mean_value ZeroMean x = Inr (Array0 0)"
| "mean_value (ConstantMean c) x = Inr (Array0 c)"
| "mean_value (QuadraticMean beta xmin ymin) x =
     bind_e (np_sub x (Array1 xmin)) (\<lambda>a.
     bind_e (np_mul a a) (\<lambda>aa.
     bind_e (np_matmul aa (as_column beta)) (\<lambda>p.
     bind_e (np_add p (Array0 ymin)) (\<lambda>q.
     Inr (flatten q)))))"

section \<open>Prediction and variance\<close>

text \<open>
  An attribute that the file has not set is the placeholder \<^verbatim>\<open>FileContents\<close>, which has
  none of the methods and no arithmetic; its use is modelled as \<^verbatim>\<open>AttributeError\<close>.
\<close>

definition attr :: "'a option \<Rightarrow> error + 'a" where
  "attr a = (case a of None \<Rightarrow> Inl AttributeError | Some v \<Rightarrow> Inr v)"

definition self_x :: "'k model \<Rightarrow> error + ndarray" where
  "self_x m = attr (m_x m)"

text \<open>
  \<^verbatim>\<open>check_x_2d\<close>, the decorator of \<open>r\<close>, \<open>predict\<close> and \<open>variance\<close>:
  \<^verbatim>\<open>
  if x.ndim == 1:
      x = x[np.newaxis, :]
  \<close>
\<close>

fun check_x_2d :: "ndarray \<Rightarrow> ndarray" where
  "check_x_2d (Array1 v) = Array2 (length v) [v]"
| "check_x_2d x = x"

text \<open>
  \<^verbatim>\<open>
  def R(self):
      return self.k.R(self.x) + (self.nugget * np.eye(self.ntrain))

  def invR(self):
      return np.linalg.inv(self.R)

  def weights(self):
      return np.matmul(self.invR, self.y[:, np.newaxis] - self.mean.value(self.x))
  \<close>
\<close>

definition R :: "'k externals \<Rightarrow> 'k model \<Rightarrow> error + ndarray" where
  "R E m =
     bind_e (attr (m_k m)) (\<lambda>k.
     bind_e (self_x m) (\<lambda>x.
     bind_e (kernel_R E k x) (\<lambda>kR.
     bind_e (attr (m_ntrain m)) (\<lambda>ntrain.
     bind_e (np_eye ntrain) (\<lambda>eye.
     bind_e (np_mul (Array0 (nugget m)) eye) (\<lambda>scaled.
     np_add kR scaled))))))"

definition invR :: "'k externals \<Rightarrow> 'k model \<Rightarrow> error + ndarray" where
  "invR E m = bind_e (R E m) (linalg_inv E)"

definition weights :: "'k externals \<Rightarrow> 'k model \<Rightarrow> error + ndarray" where
  "weights E m =
     bind_e (invR E m) (\<lambda>iR.
     bind_e (attr (m_y m)) (\<lambda>y.
     bind_e (attr (m_mean m)) (\<lambda>mean.
     bind_e (self_x m) (\<lambda>x.
     bind_e (mean_value mean x) (\<lambda>mv.
     bind_e (np_sub (as_column y) mv) (\<lambda>d.
     np_matmul iR d))))))"

text \<open>
  \<^verbatim>\<open>
  @check_x_2d
  def predict(self, x):
      return (self.mean.value(x) + np.dot(self.k.r(self.x, x).T, self.weights)).flatten()
  \<close>
\<close>

definition predict :: "'k externals \<Rightarrow> 'k model \<Rightarrow> ndarray \<Rightarrow> error + ndarray" where
  "predict E m x0 =
     (let x = check_x_2d x0 in
      bind_e (attr (m_mean m)) (\<lambda>mean.
      bind_e (mean_value mean x) (\<lambda>mv.
      bind_e (attr (m_k m)) (\<lambda>k.
      bind_e (self_x m) (\<lambda>xt.
      bind_e (kernel_r E k xt x) (\<lambda>r.
      bind_e (weights E m) (\<lambda>w.
      bind_e (np_dot (np_T r) w) (\<lambda>d.
      bind_e (np_add mv d) (\<lambda>s.
      Inr (flatten s))))))))))"

text \<open>
  \<^verbatim>\<open>
  @check_x_2d
  def variance(self, x):
      r = self.k.r(self.x, x).T
      invR = self.invR
      ones = np.ones((self.ntrain, 1))
      variance = np.empty(len(x))
      res3 = np.matmul(np.matmul(ones.T, invR), ones)

      for i, ri in enumerate(r):
          res1 = np.matmul(np.matmul(ri.T, invR), ri)
          res2 = (1.0 - np.matmul(np.matmul(ones.T, invR), ri)) ** 2
          variance[i] = 1.0 - res1 + res2 / res3
      return variance
  \<close>
  The loop is the recursion \<open>variance_loop\<close> over the items of \<open>r\<close> that are still to come,
  with the array \<open>variance\<close> and the index \<open>i\<close> as its state.
\<close>

fun variance_loop ::
  "ndarray \<Rightarrow> ndarray \<Rightarrow> ndarray \<Rightarrow> real list \<Rightarrow> nat \<Rightarrow> ndarray list \<Rightarrow> error + real list" where
  "variance_loop iR ones res3 variance i [] = Inr variance"
| "variance_loop iR ones res3 variance i (ri # rest) =
     bind_e (np_matmul (np_T ri) iR) (\<lambda>t1.
     bind_e (np_matmul t1 ri) (\<lambda>res1.
     bind_e (np_matmul (np_T ones) iR) (\<lambda>t2.
     bind_e (np_matmul t2 ri) (\<lambda>t3.
     bind_e (np_sub (Array0 1) t3) (\<lambda>t4.
     let res2 = np_square t4 in
     bind_e (np_sub (Array0 1) res1) (\<lambda>t5.
     bind_e (np_div res2 res3) (\<lambda>t6.
     bind_e (np_add t5 t6) (\<lambda>v.
     bind_e (setitem variance i v) (\<lambda>variance'.
     variance_loop iR ones res3 variance' (Suc i) rest)))))))))"

definition variance :: "'k externals \<Rightarrow> 'k model \<Rightarrow> ndarray \<Rightarrow> error + ndarray" where
  "variance E m x0 =
     (let x = check_x_2d x0 in
      bind_e (attr (m_k m)) (\<lambda>k.
      bind_e (self_x m) (\<lambda>xt.
      bind_e (kernel_r E k xt x) (\<lambda>kr.
      let r = np_T kr in
      bind_e (invR E m) (\<lambda>iR.
      bind_e (attr (m_ntrain m)) (\<lambda>ntrain.
      bind_e (np_ones_column ntrain) (\<lambda>ones.
      bind_e (np_len x) (\<lambda>n.
      let variance = map (np_empty E n) [0..<n] in
      bind_e (np_matmul (np_T ones) iR) (\<lambda>t.
      bind_e (np_matmul t ones) (\<lambda>res3.
      bind_e (np_iter r) (\<lambda>items.
      bind_e (variance_loop iR ones res3 variance 0 items) (\<lambda>result.
      Inr (Array1 result)))))))))))))"

text \<open>
  The quantities in which the specification states the results: the form
  \<open>u\<^sup>T \<cdot> M \<cdot> v\<close> of two vectors and a matrix, and the mean of one row of features.
\<close>

definition quad_form :: "real list \<Rightarrow> real list list \<Rightarrow> real list \<Rightarrow> real" where
  "quad_form u M v = (\<Sum>j<length u. \<Sum>l<length v. u ! j * M ! j ! l * v ! l)"

fun mean_of_row :: "mean \<Rightarrow> real list \<Rightarrow> real" where
  "mean_of_row ZeroMean x = 0"
| "mean_of_row (ConstantMean c) x = c"
| "mean_of_row (QuadraticMean beta xmin ymin) x =
     (\<Sum>d<length beta. beta ! d * (x ! d - xmin ! d) ^ 2) + ymin"

text \<open>The means whose \<open>value\<close> is one scalar for all rows.\<close>

fun scalar_mean :: "mean \<Rightarrow> bool" where
  "scalar_mean ZeroMean = True"
| "scalar_mean (ConstantMean c) = True"
| "scalar_mean (QuadraticMean beta xmin ymin) = False"

text \<open>The variance of one test row, from \<open>invR\<close> and the covariance column \<open>r\<^sub>i\<close> of the row.\<close>

definition variance_of_row :: "real list list \<Rightarrow> real list \<Rightarrow> real" where
  "variance_of_row M ri =
     1 - quad_form ri M ri
       + (1 - quad_form (replicate (length M) 1) M ri)\<^sup>2
         / quad_form (replicate (length M) 1) M (replicate (length M) 1)"

section \<open>Sample externals and files\<close>

text \<open>
  An instance of the externals on which the definitions can be run.
  \<^item> \<^verbatim>\<open>float\<close> and \<^verbatim>\<open>int\<close> on the few numerals of the sample files below (both builtins
    ignore surrounding whitespace).
  \<^item> Modelled from the spec: the kernel, whose modules are not among the sources. A
    composition is the name of one kernel of type \<^verbatim>\<open>rbf\<close>, which covers all features;
    the composite kernel is its lengthscale vector \<open>\<theta>\<close>, and its covariance of two rows is
    \<open>exp (- \<Sum>\<^sub>d \<theta>\<^sub>d (x\<^sub>i\<^sub>d - x\<^sub>j\<^sub>d)\<^sup>2)\<close>. \<open>R(x)\<close> is the matrix of the covariances of the rows of
    \<open>x\<close>, and \<open>r(x_train, x_test)\<close> that of the rows of \<open>x_train\<close> with the rows of \<open>x_test\<close>,
    for arrays with as many columns as \<open>\<theta>\<close> has entries.
  \<^item> The inverse of a matrix of one or two rows, by the closed formulas.
  \<^item> Memory that holds zeros.
\<close>

definition sample_float :: "string \<Rightarrow> real option" where
  "sample_float s = map_of [(''0.0'', 0), (''0.5'', 1 / 2), (''1.0'', 1), (''2.0'', 2),
                            (''3.0'', 3), (''4.0'', 4), (''1e-8'', 1 / 10 ^ 8)] (strip s)"

definition sample_int :: "string \<Rightarrow> int option" where
  "sample_int s = map_of [(''1'', 1), (''2'', 2), (''3'', 3)] (strip s)"

definition sample_interpreter :: "string \<Rightarrow> (string \<rightharpoonup> kernel_object) \<Rightarrow> error + real list" where
  "sample_interpreter composition kernels =
     (case kernels composition of
        Some (RBF theta) \<Rightarrow> Inr theta
      | _ \<Rightarrow> Inl ValueError)"

definition rbf :: "real list \<Rightarrow> real list \<Rightarrow> real list \<Rightarrow> real" where
  "rbf theta xi xj = exp (- sum_list (map (\<lambda>(t, a, b). t * (a - b) ^ 2) (zip theta (zip xi xj))))"

definition sample_r :: "real list \<Rightarrow> ndarray \<Rightarrow> ndarray \<Rightarrow> error + ndarray" where
  "sample_r theta x_train x_test =
     (case (x_train, x_test) of
        (Array2 c rows, Array2 c' rows') \<Rightarrow>
          if c = length theta \<and> c' = length theta
          then Inr (Array2 (length rows') (map (\<lambda>xi. map (\<lambda>xj. rbf theta xi xj) rows') rows))
          else Inl ValueError
      | _ \<Rightarrow> Inl ValueError)"

definition sample_R :: "real list \<Rightarrow> ndarray \<Rightarrow> error + ndarray" where
  "sample_R theta x = sample_r theta x x"

definition sample_inv :: "ndarray \<Rightarrow> error + ndarray" where
  "sample_inv a =
     (case a of
        Array2 c [[p]] \<Rightarrow> if p = 0 then Inl LinAlgError else Inr (Array2 1 [[1 / p]])
      | Array2 c [[p, q], [r, s]] \<Rightarrow>
          if p * s - q * r = 0 then Inl LinAlgError
          else Inr (Array2 2 [[s / (p * s - q * r), - q / (p * s - q * r)],
                              [- r / (p * s - q * r), p / (p * s - q * r)]])
      | _ \<Rightarrow> Inl LinAlgError)"

definition sample_externals :: "real list externals" where
  "sample_externals = \<lparr> py_float = sample_float, py_int = sample_int,
                        interpreter = sample_interpreter,
                        kernel_R = sample_R, kernel_r = sample_r,
                        linalg_inv = sample_inv, np_empty = (\<lambda>n i. 0) \<rparr>"

text \<open>
  A model of two training points of one feature, with a constant mean and a kernel of
  lengthscale 0, and a file that announces three features and holds one.
\<close>

definition sample_model :: "real list model" where
  "sample_model = \<lparr> nugget = 1, m_system = Some ''WATER'', m_atom = Some ''O1'',
                     m_type = Some ''iqa'', m_nfeats = Some 1, m_ntrain = Some 2,
                     m_mean = Some (ConstantMean (1 / 2)), m_k = Some [0],
                     m_x = Some (Array2 1 [[0], [1]]), m_y = Some [0, 2] \<rparr>"

definition wide_file :: "string list" where
  "wide_file =
     [''name WATER\<newline>'', ''nugget 1.0\<newline>'', ''number_of_features 3\<newline>'',
      ''number_of_training_points 1\<newline>'',
      ''[mean]\<newline>'', ''type constant\<newline>'', ''value 0.5\<newline>'',
      ''composition k1\<newline>'', ''[kernel.k1]\<newline>'', ''type rbf\<newline>'',
      ''number_of_dimensions 1\<newline>'', ''active_dimensions 1\<newline>'', ''thetas 1.0\<newline>'',
      ''[training_data.x]\<newline>'', ''0.0\<newline>'', ''\<newline>'',
      ''[training_data.y]\<newline>'', ''2.0\<newline>'', ''\<newline>'']"

text \<open>
  Two sample files: one whose blocks do not have the announced sizes, and one that ends
  inside the block of \<^verbatim>\<open>[training_data.x]\<close>.
\<close>

definition mismatched_file :: "string list" where
  "mismatched_file =
     [''number_of_features 2\<newline>'', ''number_of_training_points 3\<newline>'',
      ''composition k1\<newline>'', ''[kernel.k1]\<newline>'', ''type rbf\<newline>'',
      ''number_of_dimensions 2\<newline>'', ''active_dimensions 1 2\<newline>'',
      ''thetas 1.0 2.0\<newline>'',
      ''[training_data.x]\<newline>'', ''1.0 2.0 3.0\<newline>'', ''\<newline>'',
      ''[training_data.y]\<newline>'', ''0.5\<newline>'', ''1.0\<newline>'', ''\<newline>'']"

definition truncated_file :: "string list" where
  "truncated_file =
     [''name WATER\<newline>'', ''[training_data.x]\<newline>'', ''1.0 2.0\<newline>'', ''3.0 4.0\<newline>'']"

text \<open>
  Two files that hold two training points of one feature and a nugget of 1, and announce
  one training point and three training points.
\<close>

definition one_point_header_file :: "string list" where
  "one_point_header_file =
     [''nugget 1.0\<newline>'', ''number_of_features 1\<newline>'', ''number_of_training_points 1\<newline>'',
      ''composition k1\<newline>'', ''[kernel.k1]\<newline>'', ''type rbf\<newline>'',
      ''number_of_dimensions 1\<newline>'', ''active_dimensions 1\<newline>'', ''thetas 0.0\<newline>'',
      ''[training_data.x]\<newline>'', ''0.0\<newline>'', ''1.0\<newline>'', ''\<newline>'',
      ''[training_data.y]\<newline>'', ''0.0\<newline>'', ''2.0\<newline>'', ''\<newline>'']"

definition three_points_header_file :: "string list" where
  "three_points_header_file =
     [''nugget 1.0\<newline>'', ''number_of_features 1\<newline>'', ''number_of_training_points 3\<newline>'',
      ''composition k1\<newline>'', ''[kernel.k1]\<newline>'', ''type rbf\<newline>'',
      ''number_of_dimensions 1\<newline>'', ''active_dimensions 1\<newline>'', ''thetas 0.0\<newline>'',
      ''[training_data.x]\<newline>'', ''0.0\<newline>'', ''1.0\<newline>'', ''\<newline>'',
      ''[training_data.y]\<newline>'', ''0.0\<newline>'', ''2.0\<newline>'', ''\<newline>'']"

section \<open>Random selection of pool points\<close>

text \<open>
  \<^verbatim>\<open>cli/make_set_methods/random.py\<close>:
  \<^verbatim>\<open>
  def get_points(self, points: ListOfAtoms) -> List[int]:
      return random.sample(range(len(points)), k=min(self.npoints, len(points)))
  \<close>
  \<^verbatim>\<open>random.sample\<close> belongs to Python's standard library and draws from the process-wide
  generator, so a call has a set of possible outcomes rather than one value. It is modelled
  by the predicate \<open>random_sample population k out\<close>, "\<open>out\<close> is a possible outcome of the
  call": the call raises \<^verbatim>\<open>ValueError\<close> unless \<open>0 \<le> k \<le> len(population)\<close>, and otherwise
  returns \<open>k\<close> elements drawn one after the other, each drawn element leaving the population
  (sampling without replacement).
\<close>

fun drawn_from :: "'a list \<Rightarrow> 'a list \<Rightarrow> bool" where
  "drawn_from population [] = True"
| "drawn_from population (a # as) = (a \<in> set population \<and> drawn_from (remove1 a population) as)"

definition random_sample :: "'a list \<Rightarrow> int \<Rightarrow> error + 'a list \<Rightarrow> bool" where
  "random_sample population k out =
     (if k < 0 \<or> int (length population) < k then out = Inl ValueError
      else (case out of
              Inl e \<Rightarrow> False
            | Inr xs \<Rightarrow> int (length xs) = k \<and> drawn_from population xs))"

text \<open>
  \<open>RandomPoints.get_points\<close>; \<open>npoints\<close> is the attribute set by the constructor (any Python
  int), \<open>points\<close> the pool, of which only the length is read.
\<close>

definition get_points :: "int \<Rightarrow> 'p list \<Rightarrow> error + nat list \<Rightarrow> bool" where
  "get_points npoints points out =
     random_sample [0..<length points] (min npoints (int (length points))) out"

section \<open>Properties of the reader\<close>

lemma after_passes_read_loop:
  "after_passes k E fr lines = Some (fr', lines') \<Longrightarrow> read_loop E fr lines = read_loop E fr' lines'"
proof (induction k E fr lines rule: after_passes.induct)
  case (1 E fr lines)
  then show ?case by simp
next
  case (2 k E fr)
  then show ?case by simp
next
  case (3 k E fr line rest)
  then show ?case
    by (auto split: sum.splits)
qed

lemma bind_e_Inr [simp]: "bind_e (Inr v) f = f v"
  by (simp add: bind_e_def)

lemma bind_e_Inl [simp]: "bind_e (Inl e) f = Inl e"
  by (simp add: bind_e_def)

lemma bind_e_eq_Inr: "bind_e m f = Inr w \<longleftrightarrow> (\<exists>v. m = Inr v \<and> f v = Inr w)"
  by (cases m) simp_all

lemma read_line_nugget:
  assumes "\<not> py_in ''nugget'' line" and "read_line E fr line rest = Inr (fr', n)"
  shows "nugget (self fr') = nugget (self fr)"
proof -
  have "branch_of line \<noteq> Nugget"
    using assms(1) by (auto simp: branch_of_def)
  then show ?thesis
    using assms(2) unfolding read_line_def
    by (cases "branch_of line") (auto simp: bind_e_eq_Inr split: list.splits)
qed

lemma read_loop_nugget:
  "\<forall>l\<in>set lines. \<not> py_in ''nugget'' l \<Longrightarrow> nugget (self (snd (read_loop E fr lines))) = nugget (self fr)"
proof (induction E fr lines rule: read_loop.induct)
  case (1 E fr)
  show ?case by simp
next
  case (2 E fr line rest)
  show ?case
  proof (cases "read_line E fr line rest")
    case (Inl e)
    then show ?thesis by simp
  next
    case (Inr p)
    obtain fr' n where p: "p = (fr', n)" by (cases p)
    have "\<forall>l\<in>set (drop n rest). \<not> py_in ''nugget'' l"
      using "2.prems" by (auto dest: in_set_dropD)
    then have "nugget (self (snd (read_loop E fr' (drop n rest)))) = nugget (self fr')"
      using "2.IH" Inr p by simp
    moreover have "nugget (self fr') = nugget (self fr)"
      using "2.prems" Inr p by (auto intro: read_line_nugget)
    ultimately show ?thesis using Inr p by simp
  qed
qed

lemma read_file_self:
  "nugget (snd (read_file E m lines)) = nugget (self (snd (read_loop E (start m) lines)))"
  unfolding read_file_def start_def
  by (auto split: prod.splits option.splits sum.splits)

lemma read_x_rows:
  assumes "list_all2 (\<lambda>l row. floats E (split l) = Inr row) rows x"
      and "\<forall>l\<in>set rows. strip l \<noteq> []" and "strip blank = []"
  shows "read_x E (rows @ blank # rest) = Inr (x, Suc (length rows))"
  using assms by (induction rows x rule: list_all2_induct) simp_all

lemma read_y_rows:
  assumes "list_all2 (\<lambda>l v. py_float E l = Some v) rows y"
      and "\<forall>l\<in>set rows. strip l \<noteq> []" and "strip blank = []"
  shows "read_y E (rows @ blank # rest) = Inr (y, Suc (length rows))"
  using assms by (induction rows y rule: list_all2_induct) (simp_all add: to_float_def)

lemma read_x_eof:
  "\<forall>l\<in>set rows. strip l \<noteq> [] \<and> (\<exists>row. floats E (split l) = Inr row) \<Longrightarrow>
   read_x E rows = Inl StopIteration"
  by (induction rows) auto

lemma read_y_eof:
  "\<forall>l\<in>set rows. strip l \<noteq> [] \<and> (\<exists>v. py_float E l = Some v) \<Longrightarrow>
   read_y E rows = Inl StopIteration"
  by (induction rows) (auto simp: to_float_def)

lemma read_line_XSection:
  "branch_of line = XSection \<Longrightarrow>
   read_line E fr line rest =
     bind_e (read_x E rest) (\<lambda>(x, n).
     bind_e (np_array x) (\<lambda>a. Inr (fr\<lparr>self := (self fr)\<lparr>m_x := Some a\<rparr>\<rparr>, n)))"
  by (simp add: read_line_def)

lemma read_line_YSection:
  "branch_of line = YSection \<Longrightarrow>
   read_line E fr line rest =
     bind_e (read_y E rest) (\<lambda>(y, n). Inr (fr\<lparr>self := (self fr)\<lparr>m_y := Some y\<rparr>\<rparr>, n))"
  by (simp add: read_line_def)

lemma read_line_KernelSection:
  "branch_of line = KernelSection \<Longrightarrow>
   read_line E fr line rest =
     bind_e (read_kernel E (kernel_list fr) line rest) (\<lambda>(kl, n). Inr (fr\<lparr>kernel_list := kl\<rparr>, n))"
  by (simp add: read_line_def)

lemma read_line_Nugget:
  "branch_of line = Nugget \<Longrightarrow>
   read_line E fr line rest =
     bind_e (last_item (split line)) (\<lambda>tok.
     bind_e (to_float E tok) (\<lambda>v.
     Inr (fr\<lparr>self := (self fr)\<lparr>nugget := v\<rparr>\<rparr>, 0)))"
  by (simp add: read_line_def)

text \<open>
  Claim C4, amended. In a \<^verbatim>\<open>[kernel.<name>]\<close> section the line after the section line
  names the type by its last token. For the type \<^verbatim>\<open>rbf\<close>, and in the same way for
  \<^verbatim>\<open>rbf-cyclic\<close> and \<^verbatim>\<open>rbf-cylic\<close>, the reader then skips exactly two lines and reads the
  third as the data line: its first token is discarded and the others, as floats, are the
  lengthscale. The pass takes four lines from the file, and the kernel is stored under the
  name of the section, as an \<open>RBF\<close> for \<^verbatim>\<open>rbf\<close> and as an \<open>RBFCyclic\<close> for the two cyclic
  spellings; the cyclic types skip no line more than \<^verbatim>\<open>rbf\<close> does.
\<close>

theorem kernel_section_two_lines_skipped:
  assumes "branch_of line = KernelSection"
      and "last_item (split type_line) = Inr tok"
      and "strip tok \<in> {''rbf'', ''rbf-cyclic'', ''rbf-cylic''}"
      and "floats E (tl (split data_line)) = Inr lengthscale"
  shows "read_line E fr line (type_line # skipped1 # skipped2 # data_line # rest) =
           Inr (fr\<lparr>kernel_list := (kernel_list fr)(kernel_name_of line \<mapsto>
                  (if strip tok = ''rbf'' then RBF lengthscale else RBFCyclic lengthscale))\<rparr>, 4)"
  using assms(2-4) unfolding read_line_KernelSection [OF assms(1)] read_kernel_def
  by (auto simp: Let_def)

text \<open>
  Claim C6, amended. The block of \<^verbatim>\<open>[training_data.x]\<close> yields one row for each line
  before the first blank line, the floats of the whitespace-separated tokens of that
  line. When these rows all have the same number of entries their matrix is stored, when
  there is no row the empty array is stored, and when two rows differ in length the pass
  raises the \<^verbatim>\<open>ValueError\<close> of \<^verbatim>\<open>np.array\<close>. The block of \<^verbatim>\<open>[training_data.y]\<close> yields one
  float for each line before the first blank line. What is stored does not depend on
  what the state holds as \<^verbatim>\<open>number_of_training_points\<close> and \<^verbatim>\<open>number_of_features\<close>: the
  counts are not compared with them.
\<close>

theorem training_data_blocks_unchecked:
  assumes "\<forall>l\<in>set rows. strip l \<noteq> []" and "strip blank = []"
  shows "(branch_of line = XSection \<and> list_all2 (\<lambda>l row. floats E (split l) = Inr row) rows x
            \<and> x \<noteq> [] \<and> (\<forall>row\<in>set x. length row = c) \<longrightarrow>
            read_line E fr line (rows @ blank # rest) =
              Inr (fr\<lparr>self := (self fr)\<lparr>m_x := Some (Array2 c x)\<rparr>\<rparr>, Suc (length rows)))
       \<and> (branch_of line = XSection \<longrightarrow>
            read_line E fr line (blank # rest) =
              Inr (fr\<lparr>self := (self fr)\<lparr>m_x := Some (Array1 [])\<rparr>\<rparr>, 1))
       \<and> (branch_of line = XSection \<and> list_all2 (\<lambda>l row. floats E (split l) = Inr row) rows x
            \<and> (\<exists>row\<in>set x. length row \<noteq> length (hd x)) \<longrightarrow>
            read_line E fr line (rows @ blank # rest) = Inl ValueError)
       \<and> (branch_of line = YSection \<and> list_all2 (\<lambda>l v. py_float E l = Some v) rows y \<longrightarrow>
            read_line E fr line (rows @ blank # rest) =
              Inr (fr\<lparr>self := (self fr)\<lparr>m_y := Some y\<rparr>\<rparr>, Suc (length rows)))"
proof (intro conjI impI)
  assume a: "branch_of line = XSection \<and> list_all2 (\<lambda>l row. floats E (split l) = Inr row) rows x
            \<and> x \<noteq> [] \<and> (\<forall>row\<in>set x. length row = c)"
  then have "read_x E (rows @ blank # rest) = Inr (x, Suc (length rows))"
    using assms by (intro read_x_rows) simp_all
  moreover have "np_array x = Inr (Array2 c x)"
    using a by (cases x) (simp_all add: list_all_iff)
  ultimately show "read_line E fr line (rows @ blank # rest) =
      Inr (fr\<lparr>self := (self fr)\<lparr>m_x := Some (Array2 c x)\<rparr>\<rparr>, Suc (length rows))"
    using a by (simp add: read_line_XSection)
next
  assume "branch_of line = XSection"
  then show "read_line E fr line (blank # rest) =
      Inr (fr\<lparr>self := (self fr)\<lparr>m_x := Some (Array1 [])\<rparr>\<rparr>, 1)"
    using assms(2) by (simp add: read_line_XSection)
next
  assume a: "branch_of line = XSection \<and> list_all2 (\<lambda>l row. floats E (split l) = Inr row) rows x
            \<and> (\<exists>row\<in>set x. length row \<noteq> length (hd x))"
  then have "read_x E (rows @ blank # rest) = Inr (x, Suc (length rows))"
    using assms by (intro read_x_rows) simp_all
  moreover have "np_array x = Inl ValueError"
    using a by (cases x) (auto simp: list_all_iff)
  ultimately show "read_line E fr line (rows @ blank # rest) = Inl ValueError"
    using a by (simp add: read_line_XSection)
next
  assume a: "branch_of line = YSection \<and> list_all2 (\<lambda>l v. py_float E l = Some v) rows y"
  then have "read_y E (rows @ blank # rest) = Inr (y, Suc (length rows))"
    using assms by (intro read_y_rows) simp_all
  with a show "read_line E fr line (rows @ blank # rest) =
      Inr (fr\<lparr>self := (self fr)\<lparr>m_y := Some y\<rparr>\<rparr>, Suc (length rows))"
    by (simp add: read_line_YSection)
qed

text \<open>
  Claim C10. When the loop reaches the section line of \<^verbatim>\<open>[training_data.x]\<close> or of
  \<^verbatim>\<open>[training_data.y]\<close> and the file ends after data rows with no blank line,
  \<^verbatim>\<open>_read_file\<close> raises \<^verbatim>\<open>StopIteration\<close>, and the object is as it was when the
  section line was reached: the rows read so far are not stored.
\<close>

theorem training_block_without_blank_line:
  assumes "after_passes k E (start m) lines = Some (fr, line # rows)"
      and "\<forall>l\<in>set rows. strip l \<noteq> []"
      and "(branch_of line = XSection \<and> (\<forall>l\<in>set rows. \<exists>row. floats E (split l) = Inr row))
           \<or> (branch_of line = YSection \<and> (\<forall>l\<in>set rows. \<exists>v. py_float E l = Some v))"
  shows "read_file E m lines = (Some StopIteration, self fr)"
proof -
  have "read_line E fr line rows = Inl StopIteration"
    using assms(2,3)
    by (auto simp: read_line_XSection read_line_YSection read_x_eof read_y_eof)
  then have "read_loop E fr (line # rows) = (Some StopIteration, fr)"
    by simp
  then have "read_loop E (start m) lines = (Some StopIteration, fr)"
    using after_passes_read_loop [OF assms(1)] by simp
  then show ?thesis
    by (simp add: read_file_def start_def)
qed

lemma nugget_line:
  assumes "after_passes k E (start m) lines = Some (fr, line # rest)"
      and "branch_of line = Nugget"
      and "last_item (split line) = Inr tok"
      and "py_float E tok = Some v"
      and "\<forall>l\<in>set rest. \<not> py_in ''nugget'' l"
  shows "nugget (snd (read_file E m lines)) = v"
proof -
  have "read_line E fr line rest = Inr (fr\<lparr>self := (self fr)\<lparr>nugget := v\<rparr>\<rparr>, 0)"
    using assms(3,4) by (simp add: read_line_Nugget [OF assms(2)] to_float_def)
  then have "read_loop E fr (line # rest) = read_loop E (fr\<lparr>self := (self fr)\<lparr>nugget := v\<rparr>\<rparr>) rest"
    by simp
  then have "read_loop E (start m) lines = read_loop E (fr\<lparr>self := (self fr)\<lparr>nugget := v\<rparr>\<rparr>) rest"
    using after_passes_read_loop [OF assms(1)] by simp
  then show ?thesis
    using read_loop_nugget [OF assms(5), of E "fr\<lparr>self := (self fr)\<lparr>nugget := v\<rparr>\<rparr>"]
    by (simp add: read_file_self)
qed

lemma no_nugget_line:
  assumes "\<forall>l\<in>set lines. \<not> py_in ''nugget'' l"
  shows "nugget (snd (read_file E init lines)) = 1 / 10 ^ 10"
  using read_loop_nugget [OF assms, of E "start init"] by (simp add: read_file_self start_def init_def)

text \<open>
  The mean of a model that \<^verbatim>\<open>_read_file\<close> has filled is a constant mean, if the file sets
  one: no other mean is built by the reader.
\<close>

lemma read_line_mean:
  assumes "read_line E fr line rest = Inr (fr', n)"
      and "pred_option scalar_mean (m_mean (self fr))"
  shows "pred_option scalar_mean (m_mean (self fr'))"
  using assms unfolding read_line_def
  by (cases "branch_of line") (auto simp: bind_e_eq_Inr split: list.splits)

lemma read_loop_mean:
  "pred_option scalar_mean (m_mean (self fr)) \<Longrightarrow>
   pred_option scalar_mean (m_mean (self (snd (read_loop E fr lines))))"
proof (induction E fr lines rule: read_loop.induct)
  case (1 E fr)
  then show ?case by simp
next
  case (2 E fr line rest)
  show ?case
  proof (cases "read_line E fr line rest")
    case (Inl e)
    then show ?thesis using "2.prems" by simp
  next
    case (Inr p)
    obtain fr' n where p: "p = (fr', n)" by (cases p)
    have "pred_option scalar_mean (m_mean (self fr'))"
      using Inr p "2.prems" by (auto dest: read_line_mean)
    then have "pred_option scalar_mean (m_mean (self (snd (read_loop E fr' (drop n rest)))))"
      using "2.IH" Inr p by simp
    then show ?thesis using Inr p by simp
  qed
qed

lemma read_file_scalar_mean:
  assumes "m_mean (snd (read_file E init lines)) = Some mu"
  shows "scalar_mean mu"
proof -
  have "pred_option scalar_mean (m_mean (self (snd (read_loop E (start init) lines))))"
    by (rule read_loop_mean) (simp add: start_def init_def)
  moreover have "m_mean (snd (read_file E init lines))
                 = m_mean (self (snd (read_loop E (start init) lines)))"
    unfolding read_file_def by (auto split: prod.splits option.splits sum.splits)
  ultimately have "pred_option scalar_mean (Some mu)"
    using assms by metis
  then show ?thesis by simp
qed

lemmas string_defs = isspace_def split_def strip_def rstrip_def rstrip_chars_def startswith_def
  item_def last_item_def kernel_name_of_def

lemmas sample_defs = sample_externals_def sample_float_def sample_int_def to_float_def to_int_def
  sample_interpreter_def

theorem kernel_section_two_lines_skipped_witness:
  "read_line sample_externals (start init) ''[kernel.k1]\<newline>''
     [''type rbf-cyclic\<newline>'', ''number_of_dimensions 2\<newline>'', ''active_dimensions 1 2\<newline>'',
      ''thetas 1.0 2.0\<newline>'', ''\<newline>''] =
   Inr ((start init)\<lparr>kernel_list := [''k1'' \<mapsto> RBFCyclic [1, 2]]\<rparr>, 4)"
  using kernel_section_two_lines_skipped [of "''[kernel.k1]\<newline>''" "''type rbf-cyclic\<newline>''"
      "''rbf-cyclic''" sample_externals "''thetas 1.0 2.0\<newline>''" "[1, 2]" "start init"
      "''number_of_dimensions 2\<newline>''" "''active_dimensions 1 2\<newline>''" "[''\<newline>'']"]
  by (simp add: branch_of_def string_defs sample_defs start_def)

text \<open>
  Claim C4, as stated: for \<^verbatim>\<open>rbf\<close> one header line is skipped and the next line is the
  data line, and the cyclic types skip two lines more. On a section with one header line
  and then the data line \<^verbatim>\<open>thetas 1.0 2.0\<close>, the reader takes the lengthscale from the
  line after it, \<^verbatim>\<open>thetas 3.0 4.0\<close>, for \<^verbatim>\<open>rbf\<close> and for \<^verbatim>\<open>rbf-cyclic\<close> alike, and
  where no such line follows it raises \<^verbatim>\<open>StopIteration\<close>.
\<close>

theorem kernel_section_one_header_line:
  "(\<exists>fr. read_line sample_externals (start init) ''[kernel.k1]\<newline>''
            [''type rbf\<newline>'', ''number_of_dimensions 2\<newline>'', ''thetas 1.0 2.0\<newline>'',
             ''thetas 3.0 4.0\<newline>''] = Inr (fr, 4)
          \<and> kernel_list fr ''k1'' = Some (RBF [3, 4]))
   \<and> (\<exists>fr. read_line sample_externals (start init) ''[kernel.k1]\<newline>''
            [''type rbf-cyclic\<newline>'', ''number_of_dimensions 2\<newline>'', ''thetas 1.0 2.0\<newline>'',
             ''thetas 3.0 4.0\<newline>''] = Inr (fr, 4)
          \<and> kernel_list fr ''k1'' = Some (RBFCyclic [3, 4]))
   \<and> read_line sample_externals (start init) ''[kernel.k1]\<newline>''
            [''type rbf\<newline>'', ''number_of_dimensions 2\<newline>'', ''thetas 1.0 2.0\<newline>'']
        = Inl StopIteration"
  by (simp add: read_line_def read_kernel_def branch_of_def string_defs sample_defs start_def)

text \<open>
  Claim C6, as stated: a file whose blocks yield other counts than
  \<^verbatim>\<open>number_of_training_points\<close> and \<^verbatim>\<open>number_of_features\<close> is rejected. The file
  \<open>mismatched_file\<close> announces 3 training points of 2 features and holds one row of three
  columns and two outputs; it is read without an exception.
\<close>

theorem training_data_counts_not_checked:
  "fst (read_file sample_externals init mismatched_file) = None
   \<and> m_nfeats (snd (read_file sample_externals init mismatched_file)) = Some 2
   \<and> m_ntrain (snd (read_file sample_externals init mismatched_file)) = Some 3
   \<and> m_x (snd (read_file sample_externals init mismatched_file)) = Some (Array2 3 [[1, 2, 3]])
   \<and> m_y (snd (read_file sample_externals init mismatched_file)) = Some [1 / 2, 1]"
  by (simp add: read_file_def mismatched_file_def read_line_def read_kernel_def branch_of_def
      string_defs sample_defs start_def init_def)

theorem training_data_blocks_unchecked_witness:
  "read_line sample_externals (start init) ''[training_data.x]\<newline>''
       ([''1.0 2.0 3.0\<newline>''] @ ''\<newline>'' # [''[training_data.y]\<newline>'']) =
     Inr ((start init)\<lparr>self := (self (start init))\<lparr>m_x := Some (Array2 3 [[1, 2, 3]])\<rparr>\<rparr>,
          Suc (length [''1.0 2.0 3.0\<newline>'']))
   \<and> read_line sample_externals (start init) ''[training_data.x]\<newline>''
       ([''1.0 2.0\<newline>'', ''3.0\<newline>''] @ ''\<newline>'' # []) = Inl ValueError
   \<and> read_line sample_externals (start init) ''[training_data.x]\<newline>''
       (''\<newline>'' # [''[training_data.y]\<newline>'']) =
     Inr ((start init)\<lparr>self := (self (start init))\<lparr>m_x := Some (Array1 [])\<rparr>\<rparr>, 1)
   \<and> read_line sample_externals (start init) ''[training_data.y]\<newline>''
       ([''0.5\<newline>'', ''1.0\<newline>''] @ ''\<newline>'' # []) =
     Inr ((start init)\<lparr>self := (self (start init))\<lparr>m_y := Some [1 / 2, 1]\<rparr>\<rparr>,
          Suc (length [''0.5\<newline>'', ''1.0\<newline>'']))"
  using training_data_blocks_unchecked [of "[''1.0 2.0 3.0\<newline>'']" "''\<newline>''"
      "''[training_data.x]\<newline>''" sample_externals "[[1, 2, 3]]" 3 "start init"
      "[''[training_data.y]\<newline>'']" "[]"]
    training_data_blocks_unchecked [of "[''1.0 2.0\<newline>'', ''3.0\<newline>'']" "''\<newline>''"
      "''[training_data.x]\<newline>''" sample_externals "[[1, 2], [3]]" 0 "start init" "[]" "[]"]
    training_data_blocks_unchecked [of "[''0.5\<newline>'', ''1.0\<newline>'']" "''\<newline>''"
      "''[training_data.y]\<newline>''" sample_externals "[]" 0 "start init" "[]" "[1 / 2, 1]"]
  by (simp add: branch_of_def string_defs sample_defs)

theorem training_block_without_blank_line_witness:
  "read_file sample_externals init truncated_file =
     (Some StopIteration, init\<lparr>m_system := Some ''WATER''\<rparr>)"
proof -
  have a: "after_passes 1 sample_externals (start init) truncated_file =
      Some ((start init)\<lparr>self := init\<lparr>m_system := Some ''WATER''\<rparr>\<rparr>,
            ''[training_data.x]\<newline>'' # [''1.0 2.0\<newline>'', ''3.0 4.0\<newline>''])"
    by (simp add: truncated_file_def read_line_def branch_of_def string_defs start_def)
  have b: "\<forall>l\<in>set [''1.0 2.0\<newline>'', ''3.0 4.0\<newline>'']. strip l \<noteq> []"
    by (simp add: string_defs)
  have c: "(branch_of ''[training_data.x]\<newline>'' = XSection
            \<and> (\<forall>l\<in>set [''1.0 2.0\<newline>'', ''3.0 4.0\<newline>''].
                  \<exists>row. floats sample_externals (split l) = Inr row))
         \<or> (branch_of ''[training_data.x]\<newline>'' = YSection
            \<and> (\<forall>l\<in>set [''1.0 2.0\<newline>'', ''3.0 4.0\<newline>''].
                  \<exists>v. py_float sample_externals l = Some v))"
    by (simp add: branch_of_def string_defs sample_defs)
  from training_block_without_blank_line [OF a b c] show ?thesis
    by (simp add: start_def)
qed

section \<open>Properties of prediction and variance\<close>

lemma dot_sum:
  assumes "length u = length v"
  shows "dot u v = (\<Sum>i<length u. u ! i * v ! i)"
proof -
  have "dot u v = (\<Sum>i = 0..<length (map2 (*) u v). map2 (*) u v ! i)"
    unfolding dot_def by (rule sum_list_sum_nth)
  also have "\<dots> = (\<Sum>i = 0..<length u. u ! i * v ! i)"
    using assms by (intro sum.cong) simp_all
  finally show ?thesis
    by (simp add: atLeast0LessThan)
qed

lemma quad_form_dot:
  assumes u: "length u = length M"
      and M: "\<forall>row\<in>set M. length row = length v"
  shows "dot (map (\<lambda>j. dot u (column j M)) [0..<length v]) v = quad_form u M v"
proof -
  let ?n = "length u" and ?c = "length v"
  have col: "dot u (column l M) = (\<Sum>j<?n. u ! j * M ! j ! l)" for l
    using dot_sum [of u "column l M"] u by (simp add: column_def)
  have "dot (map (\<lambda>j. dot u (column j M)) [0..<?c]) v
        = (\<Sum>l<?c. dot u (column l M) * v ! l)"
    using dot_sum [of "map (\<lambda>j. dot u (column j M)) [0..<?c]" v] by simp
  also have "\<dots> = (\<Sum>l<?c. \<Sum>j<?n. u ! j * M ! j ! l * v ! l)"
    by (simp add: col sum_distrib_right)
  also have "\<dots> = (\<Sum>j<?n. \<Sum>l<?c. u ! j * M ! j ! l * v ! l)"
    by (rule sum.swap)
  finally show ?thesis
    by (simp add: quad_form_def)
qed

lemma broadcast_dim_simps [simp]:
  "broadcast_dim n n = Some n"
  "broadcast_dim (Suc 0) n = Some n"
  "broadcast_dim n (Suc 0) = Some n"
  by (simp_all add: broadcast_dim_def)

lemma entry_scalar [simp]: "entry (Suc 0, Suc 0, [[s]]) i j = s"
  by (simp add: entry_def)

lemma entry_matrix: "i < r \<Longrightarrow> j < c \<Longrightarrow> entry (r, c, rows) i j = rows ! i ! j"
  by (auto simp: entry_def)

lemma elementwise_scalars [simp]:
  "elementwise f (Array0 s) (Array0 t) = Inr (Array0 (f s t))"
  "elementwise f (Array0 s) (Array1 [t]) = Inr (Array1 [f s t])"
  "elementwise f (Array1 [s]) (Array2 (Suc 0) [[t]]) = Inr (Array2 (Suc 0) [[f s t]])"
  "elementwise f (Array0 s) (Array2 (Suc 0) [[t]]) = Inr (Array2 (Suc 0) [[f s t]])"
  by (simp_all add: elementwise_def entry_def)

lemma map_nth_rows:
  assumes "\<forall>row\<in>set rows. length row = c"
  shows "map (\<lambda>i. map (\<lambda>j. g (rows ! i ! j)) [0..<c]) [0..<length rows] = map (map g) rows"
proof (rule nth_equalityI)
  show "length (map (\<lambda>i. map (\<lambda>j. g (rows ! i ! j)) [0..<c]) [0..<length rows])
        = length (map (map g) rows)"
    by simp
next
  fix i
  assume "i < length (map (\<lambda>i. map (\<lambda>j. g (rows ! i ! j)) [0..<c]) [0..<length rows])"
  then have i: "i < length rows" by simp
  then have "length (rows ! i) = c"
    using assms by simp
  then have "map (\<lambda>j. g (rows ! i ! j)) [0..<c] = map g (rows ! i)"
    by (intro nth_equalityI) simp_all
  then show "map (\<lambda>i. map (\<lambda>j. g (rows ! i ! j)) [0..<c]) [0..<length rows] ! i
             = map (map g) rows ! i"
    using i by simp
qed

lemma elementwise_scalar_matrix:
  assumes "\<forall>row\<in>set rows. length row = c"
  shows "elementwise f (Array0 s) (Array2 c rows) = Inr (Array2 c (map (map (f s)) rows))"
proof -
  have "map (\<lambda>i. map (\<lambda>j. f (entry (Suc 0, Suc 0, [[s]]) i j) (entry (length rows, c, rows) i j))
              [0..<c]) [0..<length rows]
      = map (\<lambda>i. map (\<lambda>j. f s (rows ! i ! j)) [0..<c]) [0..<length rows]"
    by (intro map_cong refl) (simp add: entry_matrix)
  also have "\<dots> = map (map (f s)) rows"
    using assms by (rule map_nth_rows)
  finally show ?thesis
    unfolding elementwise_def by (simp add: Let_def)
qed

lemma elementwise_same_shape:
  assumes "length A = length B"
  shows "elementwise f (Array2 c A) (Array2 c B)
         = Inr (Array2 c (map (\<lambda>i. map (\<lambda>j. f (A ! i ! j) (B ! i ! j)) [0..<c]) [0..<length A]))"
proof -
  have "map (\<lambda>i. map (\<lambda>j. f (entry (length A, c, A) i j) (entry (length B, c, B) i j))
              [0..<c]) [0..<length A]
      = map (\<lambda>i. map (\<lambda>j. f (A ! i ! j) (B ! i ! j)) [0..<c]) [0..<length A]"
    using assms by (intro map_cong refl) (simp add: entry_matrix)
  then show ?thesis
    unfolding elementwise_def using assms by (simp add: Let_def)
qed

lemma column_singletons: "column 0 (map (\<lambda>s. [s]) v) = v"
  by (simp add: column_def comp_def)

lemma column_ones: "column 0 (replicate n [1::real]) = replicate n 1"
  by (simp add: column_def)

text \<open>The three products of \<open>variance\<close>, for a square matrix \<open>M\<close> of \<open>n\<close> rows.\<close>

lemma res3_value:
  assumes "length M = n" and "\<forall>row\<in>set M. length row = n"
  shows "bind_e (np_matmul (np_T (Array2 (Suc 0) (replicate n [1]))) (Array2 n M))
           (\<lambda>t. np_matmul t (Array2 (Suc 0) (replicate n [1])))
         = Inr (Array2 (Suc 0) [[quad_form (replicate n 1) M (replicate n 1)]])"
proof -
  have "dot (map (\<lambda>j. dot (replicate n 1) (column j M)) [0..<length (replicate n (1::real))])
          (replicate n 1) = quad_form (replicate n 1) M (replicate n 1)"
    using assms by (intro quad_form_dot) simp_all
  then show ?thesis
    using assms by (simp add: column_ones)
qed

lemma res1_value:
  assumes "length M = n" and "\<forall>row\<in>set M. length row = n" and "length ri = n"
  shows "bind_e (np_matmul (np_T (Array1 ri)) (Array2 n M)) (\<lambda>t. np_matmul t (Array1 ri))
         = Inr (Array0 (quad_form ri M ri))"
proof -
  have "dot (map (\<lambda>j. dot ri (column j M)) [0..<length ri]) ri = quad_form ri M ri"
    using assms by (intro quad_form_dot) simp_all
  then show ?thesis
    using assms by simp
qed

lemma res2_value:
  assumes "length M = n" and "\<forall>row\<in>set M. length row = n" and "length ri = n"
  shows "bind_e (np_matmul (np_T (Array2 (Suc 0) (replicate n [1]))) (Array2 n M))
           (\<lambda>t. np_matmul t (Array1 ri))
         = Inr (Array1 [quad_form (replicate n 1) M ri])"
proof -
  have "dot (map (\<lambda>j. dot (replicate n 1) (column j M)) [0..<length ri]) ri
        = quad_form (replicate n 1) M ri"
    using assms by (intro quad_form_dot) simp_all
  then show ?thesis
    using assms by (simp add: column_ones)
qed

lemma variance_loop_rows:
  assumes "length M = n" and "\<forall>row\<in>set M. length row = n"
      and "\<forall>ri\<in>set rs. length ri = n"
      and "i + length rs \<le> length var"
  shows "variance_loop (Array2 n M) (Array2 (Suc 0) (replicate n [1]))
           (Array2 (Suc 0) [[quad_form (replicate n 1) M (replicate n 1)]]) var i (map Array1 rs)
         = Inr (take i var @ map (variance_of_row M) rs @ drop (i + length rs) var)"
  using assms(3,4)
proof (induction rs arbitrary: var i)
  case Nil
  then show ?case by simp
next
  case (Cons ri rs)
  let ?v = "variance_of_row M ri"
  have ri: "length ri = n"
    using Cons.prems(1) by simp
  have i: "i < length var"
    using Cons.prems(2) by simp
  have r1: "bind_e (np_matmul (np_T (Array1 ri)) (Array2 n M)) (\<lambda>t. np_matmul t (Array1 ri))
            = Inr (Array0 (quad_form ri M ri))"
    using assms(1,2) ri by (rule res1_value)
  have r2: "bind_e (np_matmul (np_T (Array2 (Suc 0) (replicate n [1]))) (Array2 n M))
             (\<lambda>t. np_matmul t (Array1 ri)) = Inr (Array1 [quad_form (replicate n 1) M ri])"
    using assms(1,2) ri by (rule res2_value)
  have step: "variance_loop (Array2 n M) (Array2 (Suc 0) (replicate n [1]))
           (Array2 (Suc 0) [[quad_form (replicate n 1) M (replicate n 1)]]) var i
           (map Array1 (ri # rs))
        = variance_loop (Array2 n M) (Array2 (Suc 0) (replicate n [1]))
           (Array2 (Suc 0) [[quad_form (replicate n 1) M (replicate n 1)]]) (var[i := ?v]) (Suc i)
           (map Array1 rs)"
    using r1 r2 i assms(1)
    by (auto simp: bind_e_def np_sub_def np_div_def np_add_def setitem_def variance_of_row_def
             split: sum.splits)
  have "variance_loop (Array2 n M) (Array2 (Suc 0) (replicate n [1]))
           (Array2 (Suc 0) [[quad_form (replicate n 1) M (replicate n 1)]]) (var[i := ?v]) (Suc i)
           (map Array1 rs)
        = Inr (take (Suc i) (var[i := ?v]) @ map (variance_of_row M) rs
               @ drop (Suc i + length rs) (var[i := ?v]))"
    using Cons.prems by (intro Cons.IH) simp_all
  also have "take (Suc i) (var[i := ?v]) = take i var @ [?v]"
    using i by (simp add: take_Suc_conv_app_nth)
  also have "drop (Suc i + length rs) (var[i := ?v]) = drop (i + length (ri # rs)) var"
    by simp
  finally show ?case
    using step by simp
qed

lemma variance_of_row_Let:
  "variance_of_row M ri =
     (let ones = replicate (length M) 1;
          a = quad_form ri M ri;
          b = (1 - quad_form ones M ri)\<^sup>2;
          c = quad_form ones M ones
      in 1 - a + b / c)"
  by (simp add: variance_of_row_def Let_def)

text \<open>
  Claim C1. For a test matrix of \<open>m\<close> rows, \<open>variance\<close> returns a vector of \<open>m\<close> entries in
  the order of the rows, the entry of row \<open>i\<close> being \<open>1 - a + b / c\<close> with \<open>r\<^sub>i\<close> the column
  \<open>i\<close> of the train-test covariance, \<open>ones\<close> the vector of \<open>ntrain\<close> ones,
  \<open>a = r\<^sub>i\<^sup>T \<cdot> invR \<cdot> r\<^sub>i\<close>, \<open>b = (1 - ones\<^sup>T \<cdot> invR \<cdot> r\<^sub>i)\<^sup>2\<close> and
  \<open>c = ones\<^sup>T \<cdot> invR \<cdot> ones\<close>. The model is one whose kernel returns a covariance of
  \<open>ntrain\<close> rows and \<open>m\<close> columns and whose \<open>invR\<close> is a square matrix of \<open>ntrain\<close> rows.
\<close>

theorem variance_formula:
  assumes k: "m_k m = Some k" and xt: "self_x m = Inr xt"
      and r: "kernel_r E k xt (Array2 nfeats xs) = Inr (Array2 (length xs) r)"
      and r_rows: "length r = n" and r_cols: "\<forall>row\<in>set r. length row = length xs"
      and iR: "invR E m = Inr (Array2 n M)"
      and M_rows: "length M = n" and M_cols: "\<forall>row\<in>set M. length row = n"
      and ntrain: "m_ntrain m = Some (int n)"
  shows "variance E m (Array2 nfeats xs) =
           Inr (Array1 (map (\<lambda>i.
             let r_i = column i r;
                 ones = replicate n 1;
                 a = quad_form r_i M r_i;
                 b = (1 - quad_form ones M r_i)\<^sup>2;
                 c = quad_form ones M ones
             in 1 - a + b / c) [0..<length xs]))"
proof -
  let ?rs = "map (\<lambda>i. column i r) [0..<length xs]"
  let ?var = "map (np_empty E (length xs)) [0..<length xs]"
  have items: "np_iter (np_T (Array2 (length xs) r)) = Inr (map Array1 ?rs)"
    by simp
  have res3: "bind_e (np_matmul (np_T (Array2 (Suc 0) (replicate n [1]))) (Array2 n M))
           (\<lambda>t. np_matmul t (Array2 (Suc 0) (replicate n [1])))
         = Inr (Array2 (Suc 0) [[quad_form (replicate n 1) M (replicate n 1)]])"
    using M_rows M_cols by (rule res3_value)
  have "\<forall>ri\<in>set ?rs. length ri = n"
    using r_rows by (simp add: column_def)
  moreover have "0 + length ?rs \<le> length ?var"
    by simp
  ultimately have loop: "variance_loop (Array2 n M) (Array2 (Suc 0) (replicate n [1]))
           (Array2 (Suc 0) [[quad_form (replicate n 1) M (replicate n 1)]]) ?var 0 (map Array1 ?rs)
         = Inr (take 0 ?var @ map (variance_of_row M) ?rs @ drop (0 + length ?rs) ?var)"
    using M_rows M_cols by (intro variance_loop_rows) simp_all
  have "variance E m (Array2 nfeats xs) = Inr (Array1 (map (variance_of_row M) ?rs))"
    using k xt r iR ntrain items res3 loop M_rows
    by (simp add: variance_def np_ones_column_def attr_def Let_def)
  then show ?thesis
    using M_rows by (simp add: variance_of_row_Let comp_def Let_def)
qed

lemma mean_value_scalar:
  "scalar_mean mu \<Longrightarrow> mean_value mu x = Inr (Array0 (mean_of_row mu row))"
  by (cases mu) simp_all

lemma elementwise_matrix_scalar:
  assumes "\<forall>row\<in>set rows. length row = c"
  shows "elementwise f (Array2 c rows) (Array0 s) = Inr (Array2 c (map (map (\<lambda>a. f a s)) rows))"
proof -
  have "map (\<lambda>i. map (\<lambda>j. f (entry (length rows, c, rows) i j) (entry (Suc 0, Suc 0, [[s]]) i j))
              [0..<c]) [0..<length rows]
      = map (\<lambda>i. map (\<lambda>j. f (rows ! i ! j) s) [0..<c]) [0..<length rows]"
    by (intro map_cong refl) (simp add: entry_matrix)
  also have "\<dots> = map (map (\<lambda>a. f a s)) rows"
    using assms by (rule map_nth_rows)
  finally show ?thesis
    unfolding elementwise_def by (simp add: Let_def)
qed

lemma matrix_times_column:
  assumes "length M = n" and "\<forall>row\<in>set M. length row = length d"
  shows "np_matmul (Array2 (length d) M) (as_column d)
         = Inr (as_column (map (\<lambda>i. \<Sum>l<length d. M ! i ! l * d ! l) [0..<n]))"
proof -
  have "map (\<lambda>row. [dot row d]) M = map (\<lambda>i. [\<Sum>l<length d. M ! i ! l * d ! l]) [0..<n]"
  proof (rule nth_equalityI)
    show "length (map (\<lambda>row. [dot row d]) M)
          = length (map (\<lambda>i. [\<Sum>l<length d. M ! i ! l * d ! l]) [0..<n])"
      using assms(1) by simp
  next
    fix i
    assume "i < length (map (\<lambda>row. [dot row d]) M)"
    then have i: "i < length M" by simp
    then have "length (M ! i) = length d"
      using assms(2) by simp
    then have "dot (M ! i) d = (\<Sum>l<length d. M ! i ! l * d ! l)"
      using dot_sum [of "M ! i" d] by simp
    then show "map (\<lambda>row. [dot row d]) M ! i
               = map (\<lambda>i. [\<Sum>l<length d. M ! i ! l * d ! l]) [0..<n] ! i"
      using i assms(1) by simp
  qed
  then show ?thesis
    by (simp add: as_column_def column_singletons comp_def)
qed

lemma weights_scalar_mean:
  assumes iR: "invR E m = Inr (Array2 n M)"
      and M_rows: "length M = n" and M_cols: "\<forall>row\<in>set M. length row = n"
      and y: "m_y m = Some y" and y_len: "length y = n"
      and mean: "m_mean m = Some mu" and scalar: "scalar_mean mu"
      and xt: "self_x m = Inr xt"
  shows "weights E m =
           Inr (as_column (map (\<lambda>i. \<Sum>l<n. M ! i ! l * (y ! l - mean_of_row mu [])) [0..<n]))"
proof -
  let ?d = "map (\<lambda>a. a - mean_of_row mu []) y"
  have sub: "np_sub (as_column y) (Array0 (mean_of_row mu [])) = Inr (as_column ?d)"
    unfolding np_sub_def as_column_def
    by (subst elementwise_matrix_scalar) (simp_all add: comp_def)
  have "np_matmul (Array2 (length ?d) M) (as_column ?d)
        = Inr (as_column (map (\<lambda>i. \<Sum>l<length ?d. M ! i ! l * ?d ! l) [0..<n]))"
    using M_rows M_cols y_len by (intro matrix_times_column) simp_all
  moreover have "map (\<lambda>i. \<Sum>l<length ?d. M ! i ! l * ?d ! l) [0..<n]
               = map (\<lambda>i. \<Sum>l<n. M ! i ! l * (y ! l - mean_of_row mu [])) [0..<n]"
    using y_len by simp
  ultimately have mm: "np_matmul (Array2 n M) (as_column ?d)
        = Inr (as_column (map (\<lambda>i. \<Sum>l<n. M ! i ! l * (y ! l - mean_of_row mu [])) [0..<n]))"
    using y_len by simp
  show ?thesis
    unfolding weights_def
    by (simp only: iR y mean xt attr_def option.case bind_e_Inr
          mean_value_scalar [OF scalar, of _ "[]"] sub mm)
qed

lemma transposed_times_column:
  assumes "length r = length w" and "\<forall>row\<in>set r. length row = c"
  shows "np_dot (np_T (Array2 c r)) (as_column w)
         = Inr (as_column (map (\<lambda>i. \<Sum>j<length w. r ! j ! i * w ! j) [0..<c]))"
proof -
  have "dot (column i r) w = (\<Sum>j<length w. r ! j ! i * w ! j)" for i
    using dot_sum [of "column i r" w] assms(1) by (simp add: column_def)
  then show ?thesis
    using assms(1) by (simp add: np_dot_def as_column_def column_singletons comp_def)
qed

lemma add_scalar_column:
  "np_add (Array0 s) (as_column v) = Inr (as_column (map (\<lambda>a. s + a) v))"
  unfolding np_add_def as_column_def
  by (subst elementwise_scalar_matrix) (simp_all add: comp_def)

lemma flatten_column: "flatten (as_column v) = Array1 v"
  by (simp add: as_column_def comp_def)

text \<open>
  Claim C2. \<open>predict\<close> promotes a single feature vector to a matrix of one row, and for
  a matrix of \<open>m\<close> rows it returns the vector of the \<open>m\<close> numbers
  \<open>Mean.value(x\<^sub>i) + \<Sum>\<^sub>j r\<^sub>j\<^sub>i \<cdot> weights\<^sub>j\<close>, one for each test row. The mean is the constant mean
  that the reader builds, or the zero mean; the kernel returns a covariance of \<open>ntrain\<close>
  rows and \<open>m\<close> columns, and \<open>weights\<close> is a column of \<open>ntrain\<close> entries.
\<close>

theorem predict_formula:
  assumes mean: "m_mean m = Some mu" and scalar: "scalar_mean mu"
      and k: "m_k m = Some k" and xt: "self_x m = Inr xt"
      and r: "kernel_r E k xt (Array2 nfeats xs) = Inr (Array2 (length xs) r)"
      and r_rows: "length r = n" and r_cols: "\<forall>row\<in>set r. length row = length xs"
      and w: "weights E m = Inr (as_column w)" and w_len: "length w = n"
  shows "predict E m (Array2 nfeats xs) =
           Inr (Array1 (map (\<lambda>i. mean_of_row mu (xs ! i) + (\<Sum>j<n. r ! j ! i * w ! j))
                            [0..<length xs]))
         \<and> predict E m (Array1 v) = predict E m (Array2 (length v) [v])"
proof
  have mv: "mean_value mu (Array2 nfeats xs) = Inr (Array0 (mean_of_row mu []))"
    using scalar by (rule mean_value_scalar)
  have d: "np_dot (np_T (Array2 (length xs) r)) (as_column w)
           = Inr (as_column (map (\<lambda>i. \<Sum>j<length w. r ! j ! i * w ! j) [0..<length xs]))"
    using r_rows w_len r_cols by (intro transposed_times_column) simp_all
  have row: "mean_of_row mu (xs ! i) = mean_of_row mu []" for i
    using scalar by (cases mu) simp_all
  have "predict E m (Array2 nfeats xs) =
          Inr (Array1 (map (\<lambda>a. mean_of_row mu [] + a)
                 (map (\<lambda>i. \<Sum>j<length w. r ! j ! i * w ! j) [0..<length xs])))"
    unfolding predict_def
    by (simp only: check_x_2d.simps Let_def mean k xt r w attr_def option.case bind_e_Inr
          mv d add_scalar_column flatten_column)
  then show "predict E m (Array2 nfeats xs) =
           Inr (Array1 (map (\<lambda>i. mean_of_row mu (xs ! i) + (\<Sum>j<n. r ! j ! i * w ! j))
                            [0..<length xs]))"
    using w_len by (simp add: row comp_def)
next
  show "predict E m (Array1 v) = predict E m (Array2 (length v) [v])"
    by (simp add: predict_def)
qed

text \<open>
  Claim C3, amended. \<open>predict\<close> does not compare the number of columns of its input with
  \<^verbatim>\<open>number_of_features\<close>: for every model and every input its outcome, a value or an
  exception, is the same whatever the model holds as \<open>nfeats\<close>.
\<close>

theorem predict_ignores_nfeats:
  "predict E (m\<lparr>m_nfeats := nf\<rparr>) x = predict E m x"
  by (simp add: predict_def weights_def invR_def R_def self_x_def)

lemma R_formula:
  assumes k: "m_k m = Some k" and xt: "self_x m = Inr xt"
      and K: "kernel_R E k xt = Inr (Array2 n K)" and K_rows: "length K = n"
      and ntrain: "m_ntrain m = Some (int n)"
  shows "R E m = Inr (Array2 n (map (\<lambda>i. map (\<lambda>j. K ! i ! j + (if i = j then nugget m else 0))
                                        [0..<n]) [0..<n]))"
proof -
  let ?eye = "map (\<lambda>i. map (\<lambda>j. if i = j then 1 else (0::real)) [0..<n]) [0..<n]"
  have eye: "np_eye (int n) = Inr (Array2 n ?eye)"
    by (simp add: np_eye_def)
  have scaled: "np_mul (Array0 (nugget m)) (Array2 n ?eye)
                = Inr (Array2 n (map (map ((*) (nugget m))) ?eye))"
    unfolding np_mul_def by (rule elementwise_scalar_matrix) simp
  have "np_add (Array2 n K) (Array2 n (map (map ((*) (nugget m))) ?eye))
        = Inr (Array2 n (map (\<lambda>i. map (\<lambda>j. K ! i ! j + map (map ((*) (nugget m))) ?eye ! i ! j)
                                   [0..<n]) [0..<length K]))"
    unfolding np_add_def using K_rows by (intro elementwise_same_shape) simp
  also have "map (\<lambda>i. map (\<lambda>j. K ! i ! j + map (map ((*) (nugget m))) ?eye ! i ! j)
                                   [0..<n]) [0..<length K]
        = map (\<lambda>i. map (\<lambda>j. K ! i ! j + (if i = j then nugget m else 0)) [0..<n]) [0..<n]"
    using K_rows by (intro map_cong refl) simp_all
  finally have sum: "np_add (Array2 n K) (Array2 n (map (map ((*) (nugget m))) ?eye))
        = Inr (Array2 n (map (\<lambda>i. map (\<lambda>j. K ! i ! j + (if i = j then nugget m else 0))
                                      [0..<n]) [0..<n]))" .
  show ?thesis
    unfolding R_def
    by (simp only: k xt K ntrain attr_def option.case bind_e_Inr eye scaled sum)
qed

lemmas np_defs = attr_def self_x_def np_add_def np_sub_def np_mul_def np_div_def
  elementwise_def broadcast_dim_def entry_def np_eye_def np_ones_column_def as_column_def
  column_def dot_def np_dot_def setitem_def

lemmas sample_np_defs = sample_externals_def sample_R_def sample_r_def sample_inv_def rbf_def

lemma sample_model_R:
  "R sample_externals sample_model = Inr (Array2 2 [[2, 1], [1, 2]])"
  by (simp add: R_def sample_model_def np_defs sample_np_defs upt_conv_Cons)

lemma sample_model_invR:
  "invR sample_externals sample_model = Inr (Array2 2 [[2 / 3, - 1 / 3], [- 1 / 3, 2 / 3]])"
  by (simp add: invR_def sample_model_R) (simp add: sample_np_defs)

lemma sample_model_weights:
  "weights sample_externals sample_model = Inr (as_column [- 5 / 6, 7 / 6])"
  by (simp add: weights_def sample_model_invR) (simp add: sample_model_def np_defs upt_conv_Cons)

lemma sample_model_r:
  "kernel_r sample_externals [0] (Array2 1 [[0], [1]]) (Array2 1 [[0], [1], [1 / 2]])
   = Inr (Array2 (length [[0], [1], [1 / 2 :: real]]) [[1, 1, 1], [1, 1, 1]])"
  by (simp add: sample_np_defs)

theorem variance_formula_witness:
  "variance sample_externals sample_model (Array2 1 [[0], [1], [1 / 2]])
   = Inr (Array1 [1 / 2, 1 / 2, 1 / 2])"
proof -
  have k: "m_k sample_model = Some [0]"
    by (simp add: sample_model_def)
  have xt: "self_x sample_model = Inr (Array2 1 [[0], [1]])"
    by (simp add: sample_model_def np_defs)
  have ntrain: "m_ntrain sample_model = Some (int 2)"
    by (simp add: sample_model_def)
  have rows: "length [[1, 1, 1], [1, 1, 1 :: real]] = 2"
    "\<forall>row\<in>set [[1, 1, 1], [1, 1, 1 :: real]]. length row = length [[0], [1], [1 / 2 :: real]]"
    "length [[2 / 3, - 1 / 3], [- 1 / 3, 2 / 3 :: real]] = 2"
    "\<forall>row\<in>set [[2 / 3, - 1 / 3], [- 1 / 3, 2 / 3 :: real]]. length row = 2"
    by simp_all
  from variance_formula [OF k xt sample_model_r rows(1,2) sample_model_invR rows(3,4) ntrain]
  show ?thesis
    by (simp add: quad_form_def column_def upt_conv_Cons Let_def numeral_2_eq_2 numeral_3_eq_3)
qed

theorem predict_formula_witness:
  "predict sample_externals sample_model (Array2 1 [[0], [1], [1 / 2]])
     = Inr (Array1 [5 / 6, 5 / 6, 5 / 6])
   \<and> predict sample_externals sample_model (Array1 [0])
     = predict sample_externals sample_model (Array2 (length [0 :: real]) [[0]])"
proof -
  have mean: "m_mean sample_model = Some (ConstantMean (1 / 2))"
    by (simp add: sample_model_def)
  have scalar: "scalar_mean (ConstantMean (1 / 2))"
    by simp
  have k: "m_k sample_model = Some [0]"
    by (simp add: sample_model_def)
  have xt: "self_x sample_model = Inr (Array2 1 [[0], [1]])"
    by (simp add: sample_model_def np_defs)
  have rows: "length [[1, 1, 1], [1, 1, 1 :: real]] = 2"
    "\<forall>row\<in>set [[1, 1, 1], [1, 1, 1 :: real]]. length row = length [[0], [1], [1 / 2 :: real]]"
    "length [- 5 / 6, 7 / 6 :: real] = 2"
    by simp_all
  from predict_formula [OF mean scalar k xt sample_model_r rows(1,2) sample_model_weights rows(3),
      of "[0]"]
  show ?thesis
    by (simp add: upt_conv_Cons numeral_2_eq_2 numeral_3_eq_3)
qed

text \<open>
  Claim C5 at a model with two training points and a quadratic mean: \<open>weights\<close> is a
  matrix of two rows and two columns, not a column. \<^verbatim>\<open>QuadraticMean.value\<close> returns a
  flattened array of shape \<open>(2,)\<close>, against which the column \<^verbatim>\<open>y[:, np.newaxis]\<close> of shape
  \<open>(2, 1)\<close> is broadcast to \<open>(2, 2)\<close>.
\<close>

theorem weights_quadratic_mean:
  "weights sample_externals (sample_model\<lparr>m_mean := Some (QuadraticMean [1] [0] 0)\<rparr>)
   = Inr (Array2 2 [[- 2 / 3, - 1], [4 / 3, 1]])"
proof -
  have "invR sample_externals (sample_model\<lparr>m_mean := Some (QuadraticMean [1] [0] 0)\<rparr>)
        = invR sample_externals sample_model"
    by (simp add: invR_def R_def self_x_def)
  then show ?thesis
    by (simp add: weights_def sample_model_invR) (simp add: sample_model_def np_defs upt_conv_Cons)
qed

lemma wide_file_model:
  "read_file sample_externals init wide_file =
     (None, \<lparr> nugget = 1, m_system = Some ''WATER'', m_atom = None, m_type = None,
               m_nfeats = Some 3, m_ntrain = Some 1, m_mean = Some (ConstantMean (1 / 2)),
               m_k = Some [1], m_x = Some (Array2 1 [[0]]), m_y = Some [2] \<rparr>)"
  by (simp add: read_file_def wide_file_def read_line_def read_kernel_def branch_of_def
      string_defs sample_defs start_def init_def)

text \<open>
  Claim C3, as stated: an input whose number of columns differs from \<open>nfeats\<close> makes
  \<open>predict\<close> fail. The model read from \<open>wide_file\<close> announces three features; on an input
  of one column \<open>predict\<close> returns a value.
\<close>

theorem predict_other_width:
  "fst (read_file sample_externals init wide_file) = None
   \<and> m_nfeats (snd (read_file sample_externals init wide_file)) = Some 3
   \<and> predict sample_externals (snd (read_file sample_externals init wide_file)) (Array2 1 [[0]])
     = Inr (Array1 [5 / 4])"
  unfolding wide_file_model
  by (simp add: predict_def weights_def invR_def R_def np_defs sample_np_defs upt_conv_Cons)

lemma R_every_entry:
  assumes k: "m_k m = Some k" and xt: "self_x m = Inr xt"
      and K: "kernel_R E k xt = Inr (Array2 n K)" and K_rows: "length K = n"
      and ntrain: "m_ntrain m = Some 1"
  shows "R E m = Inr (Array2 n (map (\<lambda>i. map (\<lambda>j. K ! i ! j + nugget m) [0..<n]) [0..<n]))"
proof -
  have eye: "np_eye 1 = Inr (Array2 1 [[1]])"
    by (simp add: np_eye_def)
  have scaled: "np_mul (Array0 (nugget m)) (Array2 1 [[1]]) = Inr (Array2 1 [[nugget m]])"
    by (simp add: np_mul_def elementwise_def entry_def)
  have "map (\<lambda>i. map (\<lambda>j. entry (n, n, K) i j + entry (Suc 0, Suc 0, [[nugget m]]) i j)
                  [0..<n]) [0..<n]
        = map (\<lambda>i. map (\<lambda>j. K ! i ! j + nugget m) [0..<n]) [0..<n]"
    by (intro map_cong refl) (simp add: entry_matrix)
  then have sum: "np_add (Array2 n K) (Array2 1 [[nugget m]])
        = Inr (Array2 n (map (\<lambda>i. map (\<lambda>j. K ! i ! j + nugget m) [0..<n]) [0..<n]))"
    using K_rows by (simp add: np_add_def elementwise_def)
  show ?thesis
    unfolding R_def
    by (simp only: k xt K ntrain attr_def option.case bind_e_Inr eye scaled sum)
qed

lemma R_mismatch:
  assumes k: "m_k m = Some k" and xt: "self_x m = Inr xt"
      and K: "kernel_R E k xt = Inr (Array2 n K)" and K_rows: "length K = n"
      and ntrain: "m_ntrain m = Some t" and "t \<noteq> int n" and "t \<noteq> 1" and "n \<noteq> 1"
  shows "R E m = Inl ValueError"
proof (cases "t < 0")
  case True
  then show ?thesis
    unfolding R_def by (simp add: k xt K ntrain attr_def np_eye_def)
next
  case False
  let ?eye = "map (\<lambda>i. map (\<lambda>j. if i = j then 1 else (0::real)) [0..<nat t]) [0..<nat t]"
  have eye: "np_eye t = Inr (Array2 (nat t) ?eye)"
    using False by (simp add: np_eye_def)
  have scaled: "np_mul (Array0 (nugget m)) (Array2 (nat t) ?eye)
                = Inr (Array2 (nat t) (map (map ((*) (nugget m))) ?eye))"
    unfolding np_mul_def by (rule elementwise_scalar_matrix) simp
  have "broadcast_dim n (nat t) = None"
    using assms False by (auto simp: broadcast_dim_def)
  then have sum: "np_add (Array2 n K) (Array2 (nat t) (map (map ((*) (nugget m))) ?eye))
                  = Inl ValueError"
    using K_rows by (simp add: np_add_def elementwise_def)
  show ?thesis
    unfolding R_def
    by (simp only: k xt K ntrain attr_def option.case bind_e_Inr eye scaled sum)
qed

lemma one_point_header_file_model:
  "read_file sample_externals init one_point_header_file =
     (None, \<lparr> nugget = 1, m_system = None, m_atom = None, m_type = None,
               m_nfeats = Some 1, m_ntrain = Some 1, m_mean = None,
               m_k = Some [0], m_x = Some (Array2 1 [[0], [1]]), m_y = Some [0, 2] \<rparr>)"
  by (simp add: read_file_def one_point_header_file_def read_line_def read_kernel_def
      branch_of_def string_defs sample_defs start_def init_def)

lemma three_points_header_file_model:
  "read_file sample_externals init three_points_header_file =
     (None, \<lparr> nugget = 1, m_system = None, m_atom = None, m_type = None,
               m_nfeats = Some 1, m_ntrain = Some 3, m_mean = None,
               m_k = Some [0], m_x = Some (Array2 1 [[0], [1]]), m_y = Some [0, 2] \<rparr>)"
  by (simp add: read_file_def three_points_header_file_def read_line_def read_kernel_def
      branch_of_def string_defs sample_defs start_def init_def)

text \<open>
  Claim C9, as stated: for every persisted model file the nugget is what is added to the
  diagonal of the train-train covariance. The file \<open>one_point_header_file\<close> holds two
  training points and announces one; it is read without an exception, the covariance of
  the kernel is \<open>[[1, 1], [1, 1]]\<close>, and \<open>R\<close> has the nugget 1 added to every entry, off
  the diagonal too. The file \<open>three_points_header_file\<close> announces three; it is read
  without an exception and \<open>R\<close> raises \<^verbatim>\<open>ValueError\<close>.
\<close>

theorem nugget_added_off_diagonal:
  "fst (read_file sample_externals init one_point_header_file) = None
   \<and> nugget (snd (read_file sample_externals init one_point_header_file)) = 1
   \<and> m_ntrain (snd (read_file sample_externals init one_point_header_file)) = Some 1
   \<and> kernel_R sample_externals [0] (Array2 1 [[0], [1]]) = Inr (Array2 2 [[1, 1], [1, 1]])
   \<and> R sample_externals (snd (read_file sample_externals init one_point_header_file))
     = Inr (Array2 2 [[2, 2], [2, 2]])
   \<and> fst (read_file sample_externals init three_points_header_file) = None
   \<and> R sample_externals (snd (read_file sample_externals init three_points_header_file))
     = Inl ValueError"
  unfolding one_point_header_file_model three_points_header_file_model
  by (simp add: R_def np_defs sample_np_defs upt_conv_Cons)

text \<open>
  Claim C9, amended. A file none of whose lines contains \<^verbatim>\<open>nugget\<close> leaves the nugget of a
  new model at \<^verbatim>\<open>1e-10\<close>. When the loop reaches a line on which the test for \<^verbatim>\<open>nugget\<close> is
  the first to hold, and no later line contains \<^verbatim>\<open>nugget\<close>, the nugget after the read is
  the last whitespace-separated token of that line as a float. \<open>R\<close> is the train-train
  covariance of the kernel plus the nugget times the identity matrix of size
  \<^verbatim>\<open>number_of_training_points\<close>, with the broadcasting of numpy: for a covariance of \<open>n\<close>
  rows the nugget is added to the diagonal when \<^verbatim>\<open>number_of_training_points\<close> is \<open>n\<close>, to
  every entry when it is 1, and \<open>R\<close> raises \<^verbatim>\<open>ValueError\<close> when it is neither and \<open>n\<close> is
  not 1.
\<close>

theorem nugget_default_parsed_added:
  "((\<forall>l\<in>set lines. \<not> py_in ''nugget'' l) \<longrightarrow>
      nugget (snd (read_file E init lines)) = 1 / 10 ^ 10)
   \<and> (after_passes p E (start m0) lines' = Some (fr, line # rest)
        \<and> branch_of line = Nugget
        \<and> last_item (split line) = Inr tok \<and> py_float E tok = Some v
        \<and> (\<forall>l\<in>set rest. \<not> py_in ''nugget'' l) \<longrightarrow>
      nugget (snd (read_file E m0 lines')) = v)
   \<and> (m_k m = Some k \<and> self_x m = Inr xt
        \<and> kernel_R E k xt = Inr (Array2 n K) \<and> length K = n
        \<and> m_ntrain m = Some (int n) \<longrightarrow>
      R E m = Inr (Array2 n (map (\<lambda>i. map (\<lambda>j. K ! i ! j + (if i = j then nugget m else 0))
                                         [0..<n]) [0..<n])))
   \<and> (m_k m = Some k \<and> self_x m = Inr xt
        \<and> kernel_R E k xt = Inr (Array2 n K) \<and> length K = n
        \<and> m_ntrain m = Some 1 \<longrightarrow>
      R E m = Inr (Array2 n (map (\<lambda>i. map (\<lambda>j. K ! i ! j + nugget m) [0..<n]) [0..<n])))
   \<and> (m_k m = Some k \<and> self_x m = Inr xt
        \<and> kernel_R E k xt = Inr (Array2 n K) \<and> length K = n
        \<and> m_ntrain m = Some t \<and> t \<noteq> int n \<and> t \<noteq> 1 \<and> n \<noteq> 1 \<longrightarrow>
      R E m = Inl ValueError)"
proof (intro conjI impI)
  assume "\<forall>l\<in>set lines. \<not> py_in ''nugget'' l"
  then show "nugget (snd (read_file E init lines)) = 1 / 10 ^ 10"
    by (rule no_nugget_line)
next
  assume "after_passes p E (start m0) lines' = Some (fr, line # rest)
        \<and> branch_of line = Nugget
        \<and> last_item (split line) = Inr tok \<and> py_float E tok = Some v
        \<and> (\<forall>l\<in>set rest. \<not> py_in ''nugget'' l)"
  then show "nugget (snd (read_file E m0 lines')) = v"
    by (elim conjE) (rule nugget_line)
next
  assume "m_k m = Some k \<and> self_x m = Inr xt
        \<and> kernel_R E k xt = Inr (Array2 n K) \<and> length K = n
        \<and> m_ntrain m = Some (int n)"
  then show "R E m = Inr (Array2 n (map (\<lambda>i. map (\<lambda>j. K ! i ! j + (if i = j then nugget m else 0))
                                         [0..<n]) [0..<n]))"
    by (elim conjE) (rule R_formula)
next
  assume "m_k m = Some k \<and> self_x m = Inr xt
        \<and> kernel_R E k xt = Inr (Array2 n K) \<and> length K = n
        \<and> m_ntrain m = Some 1"
  then show "R E m = Inr (Array2 n (map (\<lambda>i. map (\<lambda>j. K ! i ! j + nugget m) [0..<n]) [0..<n]))"
    by (elim conjE) (rule R_every_entry)
next
  assume "m_k m = Some k \<and> self_x m = Inr xt
        \<and> kernel_R E k xt = Inr (Array2 n K) \<and> length K = n
        \<and> m_ntrain m = Some t \<and> t \<noteq> int n \<and> t \<noteq> 1 \<and> n \<noteq> 1"
  then show "R E m = Inl ValueError"
    by (elim conjE) (rule R_mismatch)
qed

theorem nugget_default_parsed_added_witness:
  "nugget (snd (read_file sample_externals init
       [''name WATER\<newline>'', ''number_of_features 2\<newline>''])) = 1 / 10 ^ 10
   \<and> nugget (snd (read_file sample_externals init
       [''name WATER\<newline>'', ''nugget 1e-8\<newline>'', ''atom O1\<newline>''])) = 1 / 10 ^ 8
   \<and> R sample_externals sample_model = Inr (Array2 2 [[2, 1], [1, 2]])
   \<and> R sample_externals (sample_model\<lparr>m_ntrain := Some 1\<rparr>) = Inr (Array2 2 [[2, 2], [2, 2]])
   \<and> R sample_externals (sample_model\<lparr>m_ntrain := Some 3\<rparr>) = Inl ValueError"
proof -
  have a: "\<forall>l\<in>set [''name WATER\<newline>'', ''number_of_features 2\<newline>'']. \<not> py_in ''nugget'' l"
    by (simp add: startswith_def)
  have b: "after_passes 1 sample_externals (start init)
             [''name WATER\<newline>'', ''nugget 1e-8\<newline>'', ''atom O1\<newline>'']
           = Some ((start init)\<lparr>self := init\<lparr>m_system := Some ''WATER''\<rparr>\<rparr>,
                   ''nugget 1e-8\<newline>'' # [''atom O1\<newline>''])"
    by (simp add: read_line_def branch_of_def string_defs start_def)
  have c: "branch_of ''nugget 1e-8\<newline>'' = Nugget"
    "last_item (split ''nugget 1e-8\<newline>'') = Inr ''1e-8''"
    "py_float sample_externals ''1e-8'' = Some (1 / 10 ^ 8)"
    "\<forall>l\<in>set [''atom O1\<newline>'']. \<not> py_in ''nugget'' l"
    by (simp_all add: branch_of_def string_defs sample_defs)
  have d: "m_k sample_model = Some [0]" "self_x sample_model = Inr (Array2 1 [[0], [1]])"
    "kernel_R sample_externals [0] (Array2 1 [[0], [1]]) = Inr (Array2 2 [[1, 1], [1, 1]])"
    "length [[1, 1], [1, 1 :: real]] = 2" "m_ntrain sample_model = Some (int 2)"
    by (simp_all add: sample_model_def np_defs sample_np_defs)
  have e: "m_k (sample_model\<lparr>m_ntrain := Some 1\<rparr>) = Some [0]"
    "self_x (sample_model\<lparr>m_ntrain := Some 1\<rparr>) = Inr (Array2 1 [[0], [1]])"
    "m_k (sample_model\<lparr>m_ntrain := Some 3\<rparr>) = Some [0]"
    "self_x (sample_model\<lparr>m_ntrain := Some 3\<rparr>) = Inr (Array2 1 [[0], [1]])"
    "nugget (sample_model\<lparr>m_ntrain := Some 1\<rparr>) = 1"
    by (simp_all add: sample_model_def np_defs)
  from nugget_default_parsed_added [of "[''name WATER\<newline>'', ''number_of_features 2\<newline>'']"
      sample_externals 1 init "[''name WATER\<newline>'', ''nugget 1e-8\<newline>'', ''atom O1\<newline>'']"
      "(start init)\<lparr>self := init\<lparr>m_system := Some ''WATER''\<rparr>\<rparr>"
      "''nugget 1e-8\<newline>''" "[''atom O1\<newline>'']" "''1e-8''" "1 / 10 ^ 8"
      sample_model "[0]" "Array2 1 [[0], [1]]" 2 "[[1, 1], [1, 1]]" 2]
    a b c d
  have first: "nugget (snd (read_file sample_externals init
       [''name WATER\<newline>'', ''number_of_features 2\<newline>''])) = 1 / 10 ^ 10
   \<and> nugget (snd (read_file sample_externals init
       [''name WATER\<newline>'', ''nugget 1e-8\<newline>'', ''atom O1\<newline>''])) = 1 / 10 ^ 8
   \<and> R sample_externals sample_model = Inr (Array2 2 [[2, 1], [1, 2]])"
    by (simp add: upt_conv_Cons sample_model_def numeral_2_eq_2)
  from nugget_default_parsed_added [of "[''name WATER\<newline>'', ''number_of_features 2\<newline>'']"
      sample_externals 1 init "[''name WATER\<newline>'', ''nugget 1e-8\<newline>'', ''atom O1\<newline>'']"
      "(start init)\<lparr>self := init\<lparr>m_system := Some ''WATER''\<rparr>\<rparr>"
      "''nugget 1e-8\<newline>''" "[''atom O1\<newline>'']" "''1e-8''" "1 / 10 ^ 8"
      "sample_model\<lparr>m_ntrain := Some 1\<rparr>" "[0]" "Array2 1 [[0], [1]]" 2 "[[1, 1], [1, 1]]" 1]
    d(3) e
  have second: "R sample_externals (sample_model\<lparr>m_ntrain := Some 1\<rparr>)
                = Inr (Array2 2 [[2, 2], [2, 2]])"
    by (simp add: upt_conv_Cons numeral_2_eq_2)
  from nugget_default_parsed_added [of "[''name WATER\<newline>'', ''number_of_features 2\<newline>'']"
      sample_externals 1 init "[''name WATER\<newline>'', ''nugget 1e-8\<newline>'', ''atom O1\<newline>'']"
      "(start init)\<lparr>self := init\<lparr>m_system := Some ''WATER''\<rparr>\<rparr>"
      "''nugget 1e-8\<newline>''" "[''atom O1\<newline>'']" "''1e-8''" "1 / 10 ^ 8"
      "sample_model\<lparr>m_ntrain := Some 3\<rparr>" "[0]" "Array2 1 [[0], [1]]" 2 "[[1, 1], [1, 1]]" 3]
    d(3) e
  have third: "R sample_externals (sample_model\<lparr>m_ntrain := Some 3\<rparr>) = Inl ValueError"
    by simp
  from first second third show ?thesis
    by simp
qed

section \<open>Properties of the random selector\<close>

lemma drawn_from_mset: "drawn_from population xs \<Longrightarrow> mset xs \<subseteq># mset population"
proof (induction xs arbitrary: population)
  case Nil
  show ?case by simp
next
  case (Cons a as)
  from Cons.prems have mem: "a \<in> set population" and rest: "drawn_from (remove1 a population) as"
    by simp_all
  from Cons.IH [OF rest] have "mset as \<subseteq># mset population - {#a#}"
    by simp
  with mem show ?case
    by (simp add: insert_subset_eq_iff)
qed

lemma drawn_from_take: "drawn_from population (take k population)"
proof (induction population arbitrary: k)
  case Nil
  show ?case by simp
next
  case (Cons p ps)
  show ?case by (cases k) (simp_all add: Cons.IH)
qed

lemma drawn_from_set: "drawn_from population xs \<Longrightarrow> set xs \<subseteq> set population"
  by (drule drawn_from_mset) (metis set_mset_mono set_mset_mset)

lemma drawn_from_distinct:
  "drawn_from population xs \<Longrightarrow> distinct population \<Longrightarrow> distinct xs"
proof (induction xs arbitrary: population)
  case Nil
  show ?case by simp
next
  case (Cons a as)
  from Cons.prems have rest: "drawn_from (remove1 a population) as"
    by simp
  have d: "distinct (remove1 a population)"
    using Cons.prems(2) by simp
  have "set as \<subseteq> set (remove1 a population)"
    using rest by (rule drawn_from_set)
  then have "a \<notin> set as"
    using Cons.prems(2) by auto
  with Cons.IH [OF rest d] show ?case by simp
qed

lemma drawn_from_all:
  assumes "drawn_from population xs" and "length xs = length population"
  shows "mset xs = mset population"
proof -
  have sub: "mset xs \<subseteq># mset population"
    using assms(1) by (rule drawn_from_mset)
  have "size (mset xs) = size (mset population)"
    using assms(2) by simp
  with sub show ?thesis
    by (metis mset_subset_size subset_mset.le_less order_less_irrefl)
qed

text \<open>
  Claim C8. For a pool of \<open>N\<close> points and a requested size \<open>n \<ge> 1\<close>, \<open>get_points\<close> has an
  outcome, and every outcome is a list of exactly \<open>min n N\<close> distinct indices of
  \<open>0 .. N-1\<close> drawn without replacement; when \<open>n\<close> is at least the pool size the outcome
  holds every pool index exactly once.
\<close>

theorem get_points_min_distinct:
  assumes "1 \<le> n"
  shows "(\<exists>out. get_points n points out) \<and>
         (\<forall>out. get_points n points out \<longrightarrow>
            (\<exists>xs. out = Inr xs
                \<and> length xs = min (nat n) (length points)
                \<and> distinct xs
                \<and> set xs \<subseteq> {0..<length points}
                \<and> drawn_from [0..<length points] xs
                \<and> (int (length points) \<le> n \<longrightarrow> mset xs = mset [0..<length points])))"
proof (intro conjI allI impI)
  let ?N = "length points"
  let ?k = "min n (int ?N)"
  have k: "\<not> (?k < 0 \<or> int (length [0..<?N]) < ?k)"
    using assms by simp
  define xs where "xs = take (nat ?k) [0..<?N]"
  have len: "int (length xs) = ?k"
    using assms by (auto simp: xs_def min_def)
  have drawn: "drawn_from [0..<?N] xs"
    unfolding xs_def by (rule drawn_from_take)
  have "random_sample [0..<?N] ?k (Inr xs)"
    unfolding random_sample_def using k len drawn by simp
  then show "\<exists>out. get_points n points out"
    unfolding get_points_def by blast
next
  fix out
  let ?N = "length points"
  let ?k = "min n (int ?N)"
  assume "get_points n points out"
  then have rs: "random_sample [0..<?N] ?k out"
    by (simp add: get_points_def)
  have k: "\<not> (?k < 0 \<or> int (length [0..<?N]) < ?k)"
    using assms by simp
  from rs k obtain xs where out: "out = Inr xs"
    and len: "int (length xs) = ?k" and drawn: "drawn_from [0..<?N] xs"
    unfolding random_sample_def by (cases out) auto
  have len': "length xs = min (nat n) ?N"
    using len assms by linarith
  have dist: "distinct xs"
    using drawn by (rule drawn_from_distinct) simp
  have sub: "set xs \<subseteq> {0..<?N}"
    using drawn_from_set [OF drawn] by simp
  have all: "mset xs = mset [0..<?N]" if "int ?N \<le> n"
  proof -
    have "length xs = length [0..<?N]"
      using len' that by simp
    with drawn show ?thesis by (rule drawn_from_all)
  qed
  from out len' dist sub drawn all
  show "\<exists>xs. out = Inr xs
          \<and> length xs = min (nat n) ?N
          \<and> distinct xs
          \<and> set xs \<subseteq> {0..<?N}
          \<and> drawn_from [0..<?N] xs
          \<and> (int ?N \<le> n \<longrightarrow> mset xs = mset [0..<?N])"
    by blast
qed

theorem get_points_min_distinct_witness:
  "(1::int) \<le> 5
   \<and> get_points 5 [''a'', ''b'', ''c''] (Inr [2, 0, 1])
   \<and> length [2, 0, 1 :: nat] = min (nat 5) (length [''a'', ''b'', ''c''])
   \<and> mset [2, 0, 1 :: nat] = mset [0..<length [''a'', ''b'', ''c'']]"
proof -
  have h: "(1::int) \<le> 5" by simp
  have g: "get_points 5 [''a'', ''b'', ''c''] (Inr [2, 0, 1])"
    by (simp add: get_points_def random_sample_def upt_conv_Cons)
  from get_points_min_distinct [OF h, of "[''a'', ''b'', ''c'']"] g
  have "mset [2, 0, 1 :: nat] = mset [0..<length [''a'', ''b'', ''c'']]"
    by fastforce
  with h g show ?thesis by simp
qed

text \<open>
  Claim C7, as stated: \<open>get_points\<close> with \<open>n \<le> 0\<close> or with an empty pool fails. It does not:
  a request of size 0, and any non-negative request on an empty pool, returns the empty
  index list.
\<close>

theorem get_points_zero_or_empty_returns:
  "get_points 0 [''a'', ''b''] (Inr [])
   \<and> get_points 0 ([] :: string list) (Inr [])
   \<and> get_points 3 ([] :: string list) (Inr [])
   \<and> (\<forall>e. \<not> get_points 0 [''a'', ''b''] (Inl e))
   \<and> (\<forall>e. \<not> get_points 3 ([] :: string list) (Inl e))"
  by (simp add: get_points_def random_sample_def)

text \<open>
  Claim C7, amended. \<open>get_points\<close> fails exactly for a negative \<open>n\<close>, with the
  \<^verbatim>\<open>ValueError\<close> of \<^verbatim>\<open>random.sample\<close> (the code has no selection error of its own);
  for \<open>n = 0\<close>, and for an empty pool with \<open>n \<ge> 0\<close>, its only outcome is the empty list.
\<close>

theorem get_points_nonpositive:
  "(n < 0 \<longrightarrow> (get_points n points out \<longleftrightarrow> out = Inl ValueError))
   \<and> (n = 0 \<or> (points = [] \<and> 0 \<le> n) \<longrightarrow> (get_points n points out \<longleftrightarrow> out = Inr []))"
proof (intro conjI impI)
  assume "n < 0"
  then show "get_points n points out \<longleftrightarrow> out = Inl ValueError"
    by (simp add: get_points_def random_sample_def)
next
  assume "n = 0 \<or> (points = [] \<and> 0 \<le> n)"
  then have k: "min n (int (length points)) = 0"
    by auto
  show "get_points n points out \<longleftrightarrow> out = Inr []"
    unfolding get_points_def random_sample_def k
    by (cases out) auto
qed

theorem get_points_nonpositive_witness:
  "(-1::int) < 0 \<and> get_points (-1) [''a'', ''b''] (Inl ValueError)
   \<and> get_points 0 [''a'', ''b''] (Inr [])
   \<and> get_points 3 ([] :: string list) (Inr [])"
  using get_points_nonpositive [of "-1" "[''a'', ''b'']" "Inl ValueError"]
    get_points_nonpositive [of 0 "[''a'', ''b'']" "Inr []"]
    get_points_nonpositive [of 3 "[] :: string list" "Inr []"]
  by simp

end
